theory Spec2Isabelle
  imports Complex_Main
begin

section \<open>Python values used by the discussion engine\<close>

text \<open>
  A Python \<open>str\<close> is a sequence of Unicode code points, so it is modelled as a list of
  natural numbers; \<open>str\<close> turns an ASCII literal into such a list. The built-in string
  operations the program calls are written out: \<open>strip\<close> with no argument removes the
  characters for which \<open>str.isspace\<close> holds from both ends, and \<open>join\<close> puts the
  separator between the pieces.
\<close>

type_synonym pystr = "nat list"

definition str :: "string \<Rightarrow> pystr" where
  "str cs = map of_char cs"

definition isspace :: "nat \<Rightarrow> bool" where
  "isspace c =
     ((9 \<le> c \<and> c \<le> 13) \<or> (28 \<le> c \<and> c \<le> 32) \<or> c = 133 \<or> c = 160 \<or> c = 5760 \<or>
      (8192 \<le> c \<and> c \<le> 8202) \<or> c = 8232 \<or> c = 8233 \<or> c = 8239 \<or> c = 8287 \<or> c = 12288)"

definition lstrip :: "pystr \<Rightarrow> pystr" where
  "lstrip s = dropWhile isspace s"

definition rstrip :: "pystr \<Rightarrow> pystr" where
  "rstrip s = rev (dropWhile isspace (rev s))"

definition strip :: "pystr \<Rightarrow> pystr" where
  "strip s = rstrip (lstrip s)"

fun join :: "pystr \<Rightarrow> pystr list \<Rightarrow> pystr" where
  "join sep [] = []"
| "join sep [x] = x"
| "join sep (x # y # ys) = x @ sep @ join sep (y # ys)"

text \<open>
  A \<open>dict\<close> keeps its keys in insertion order, and the program reads that order
  (\<open>items()\<close>, \<open>values()\<close>), so a dict is an association list: \<open>dict_set\<close> overwrites
  the value of a key in place or appends a new key, \<open>dict_get\<close> is \<open>d.get(k, default)\<close>
  and \<open>map_of d k\<close> is the lookup behind \<open>d[k]\<close>, which raises \<open>KeyError\<close> on \<open>None\<close>.
\<close>

type_synonym ('k, 'v) dict = "('k \<times> 'v) list"

fun dict_set :: "('k, 'v) dict \<Rightarrow> 'k \<Rightarrow> 'v \<Rightarrow> ('k, 'v) dict" where
  "dict_set [] k v = [(k, v)]"
| "dict_set ((k', v') # d) k v = (if k' = k then (k, v) # d else (k', v') # dict_set d k v)"

definition dict_get :: "('k, 'v) dict \<Rightarrow> 'k \<Rightarrow> 'v \<Rightarrow> 'v" where
  "dict_get d k dflt = (case map_of d k of Some v \<Rightarrow> v | None \<Rightarrow> dflt)"

definition dict_values :: "('k, 'v) dict \<Rightarrow> 'v list" where
  "dict_values d = map snd d"

text \<open>
  Every exception the modelled code can raise is a value: the two lookups, the factory's
  \<open>ValueError\<close>, \<open>sys.exit\<close>, a file that cannot be opened, and whatever a generation backend raises
  (connection, timeout, HTTP status), which the engine never inspects.
\<close>

datatype error =
    KeyError pystr
  | IndexError
  | ValueError pystr
  | SystemExit int
  | OSError pystr
  | BackendError pystr

section \<open>personas.py\<close>

text \<open>
  An entry of \<open>PERSONAS\<close> is a dict with the keys \<open>name\<close>, \<open>emoji\<close> and
  \<open>system_prompt\<close>; the field \<open>glyph\<close> holds the value of the key \<open>emoji\<close>
  (\<open>emoji\<close> itself is the attribute of \<open>Message\<close> below).
\<close>

record persona =
  name :: pystr
  glyph :: pystr
  system_prompt :: pystr

definition logical_system_prompt :: pystr where
  \<open>logical_system_prompt = str (
     ''You are participating in a casual group chat discussion with friends. Your thinking style is LOGICAL and STRUCTURED.\<newline>'' @
     ''\<newline>'' @
     ''Your personality:\<newline>'' @
     ''- Calm, methodical, and fact-focused\<newline>'' @
     ''- You break things down step by step\<newline>'' @
     ''- You prefer evidence and clear reasoning\<newline>'' @
     ''- You organize thoughts systematically\<newline>'' @
     ''- You're friendly but analytical\<newline>'' @
     ''\<newline>'' @
     ''Conversation rules:\<newline>'' @
     ''- Write like you're texting friends - natural, not formal essays\<newline>'' @
     ''- Keep messages short to medium length (2-5 sentences typically)\<newline>'' @
     ''- Reference what others said when relevant ("I see what you mean, but...")\<newline>'' @
     ''- Stay consistent with your logical personality\<newline>'' @
     ''- Don't be robotic - be warm but precise\<newline>'' @
     ''- Never mention being an AI or LLM\<newline>'' @
     ''- Just respond naturally as a person in the chat'')\<close>

definition creative_system_prompt :: pystr where
  \<open>creative_system_prompt = str (
     ''You are participating in a casual group chat discussion with friends. Your thinking style is CREATIVE and IMAGINATIVE.\<newline>'' @
     ''\<newline>'' @
     ''Your personality:\<newline>'' @
     ''- Open-ended and speculative\<newline>'' @
     ''- You bring unusual or alternative viewpoints\<newline>'' @
     ''- You think in metaphors and possibilities\<newline>'' @
     ''- You ask "what if" questions\<newline>'' @
     ''- You're enthusiastic and curious\<newline>'' @
     ''\<newline>'' @
     ''Conversation rules:\<newline>'' @
     ''- Write like you're texting friends - natural, not formal essays\<newline>'' @
     ''- Keep messages short to medium length (2-5 sentences typically)\<newline>'' @
     ''- Reference what others said when relevant ("Oh that reminds me of...")\<newline>'' @
     ''- Stay consistent with your creative personality\<newline>'' @
     ''- Be expressive and use occasional enthusiasm\<newline>'' @
     ''- Never mention being an AI or LLM\<newline>'' @
     ''- Just respond naturally as a person in the chat'')\<close>

definition skeptical_system_prompt :: pystr where
  \<open>skeptical_system_prompt = str (
     ''You are participating in a casual group chat discussion with friends. Your thinking style is SKEPTICAL and QUESTIONING.\<newline>'' @
     ''\<newline>'' @
     ''Your personality:\<newline>'' @
     ''- You question assumptions politely\<newline>'' @
     ''- You play devil's advocate constructively\<newline>'' @
     ''- You look for gaps in reasoning\<newline>'' @
     ''- You ask clarifying questions\<newline>'' @
     ''- You're respectful but challenging\<newline>'' @
     ''\<newline>'' @
     ''Conversation rules:\<newline>'' @
     ''- Write like you're texting friends - natural, not formal essays\<newline>'' @
     ''- Keep messages short to medium length (2-5 sentences typically)\<newline>'' @
     ''- Reference what others said when relevant ("Hmm, but have you considered...")\<newline>'' @
     ''- Stay consistent with your skeptical personality\<newline>'' @
     ''- Be polite when disagreeing - never aggressive\<newline>'' @
     ''- Never mention being an AI or LLM\<newline>'' @
     ''- Just respond naturally as a person in the chat'')\<close>

definition practical_system_prompt :: pystr where
  \<open>practical_system_prompt = str (
     ''You are participating in a casual group chat discussion with friends. Your thinking style is PRACTICAL and GROUNDED.\<newline>'' @
     ''\<newline>'' @
     ''Your personality:\<newline>'' @
     ''- You focus on real-world feasibility\<newline>'' @
     ''- You think about cost, effort, and scalability\<newline>'' @
     ''- You consider risks and implementation challenges\<newline>'' @
     ''- You bring discussions back to actionable reality\<newline>'' @
     ''- You're direct but friendly\<newline>'' @
     ''\<newline>'' @
     ''Conversation rules:\<newline>'' @
     ''- Write like you're texting friends - natural, not formal essays\<newline>'' @
     ''- Keep messages short to medium length (2-5 sentences typically)\<newline>'' @
     ''- Reference what others said when relevant ("That's cool in theory, but...")\<newline>'' @
     ''- Stay consistent with your practical personality\<newline>'' @
     ''- Keep things grounded without being dismissive\<newline>'' @
     ''- Never mention being an AI or LLM\<newline>'' @
     ''- Just respond naturally as a person in the chat'')\<close>

definition synthesizer_system_prompt :: pystr where
  \<open>synthesizer_system_prompt = str (
     ''You are participating in a casual group chat discussion with friends. Your role is to be a NEUTRAL OBSERVER and SYNTHESIZER.\<newline>'' @
     ''\<newline>'' @
     ''Your personality:\<newline>'' @
     ''- You observe more than you argue\<newline>'' @
     ''- You occasionally summarize what's been said\<newline>'' @
     ''- You highlight interesting tensions or agreements\<newline>'' @
     ''- You're balanced and don't take strong sides\<newline>'' @
     ''- You help bridge different viewpoints\<newline>'' @
     ''\<newline>'' @
     ''Conversation rules:\<newline>'' @
     ''- Write like you're texting friends - natural, not formal essays\<newline>'' @
     ''- Keep messages short to medium length (2-5 sentences typically)\<newline>'' @
     ''- Reference multiple people's points ("So we have X saying... and Y saying...")\<newline>'' @
     ''- Stay neutral - don't advocate for one position\<newline>'' @
     ''- Speak less frequently than others\<newline>'' @
     ''- Never mention being an AI or LLM\<newline>'' @
     ''- Just respond naturally as a person in the chat'')\<close>
definition PERSONAS :: "(pystr, persona) dict" where
  "PERSONAS =
     [(str ''logical'',
         \<lparr>name = str ''Logical Thinker'', glyph = [0x1F9E0],
          system_prompt = logical_system_prompt\<rparr>),
      (str ''creative'',
         \<lparr>name = str ''Creative Thinker'', glyph = [0x1F3A8],
          system_prompt = creative_system_prompt\<rparr>),
      (str ''skeptical'',
         \<lparr>name = str ''Skeptical Thinker'', glyph = [0x1F914],
          system_prompt = skeptical_system_prompt\<rparr>),
      (str ''practical'',
         \<lparr>name = str ''Practical Thinker'', glyph = [0x1F527],
          system_prompt = practical_system_prompt\<rparr>),
      (str ''synthesizer'',
         \<lparr>name = str ''Neutral Synthesizer'', glyph = [0x2696, 0xFE0F],
          system_prompt = synthesizer_system_prompt\<rparr>)]"

definition RESPONSE_ORDER :: "pystr list" where
  "RESPONSE_ORDER = [str ''logical'', str ''creative'', str ''skeptical'', str ''practical'']"

definition RESPONSE_ORDER_WITH_SYNTH :: "pystr list" where
  "RESPONSE_ORDER_WITH_SYNTH =
     [str ''logical'', str ''creative'', str ''skeptical'', str ''practical'', str ''synthesizer'']"

section \<open>config.py\<close>

text \<open>
  The module \<open>config\<close> is a set of process-wide variables that \<open>main\<close> may overwrite
  before a session is built, so the engine takes it as a value. An entry of
  \<open>MIXED_ASSIGNMENTS\<close> is either a dict with the key \<open>provider\<close> and, optionally, the
  key \<open>model\<close>, or (the old format) the provider string alone. Temperatures are Python
  floats that the engine only hands on to the backend; they are written as rationals.
\<close>

datatype assignment =
    NewFormat pystr "pystr option"
  | OldFormat pystr

record config =
  GROQ_API_KEY :: pystr
  GOOGLE_API_KEY :: pystr
  HUGGINGFACE_API_KEY :: pystr
  LLM_PROVIDER :: pystr
  MIXED_ASSIGNMENTS :: "(pystr, assignment) dict"
  MODELS :: "(pystr, pystr) dict"
  OLLAMA_BASE_URL :: pystr
  OLLAMA_TIMEOUT :: int
  MAX_ROUNDS :: int
  ENABLE_SYNTHESIZER :: bool
  PERSONA_TEMPERATURES :: "(pystr, rat) dict"

text \<open>The values \<open>config.py\<close> assigns, with the three API keys absent from the environment.\<close>

definition default_config :: config where
  "default_config =
     \<lparr>GROQ_API_KEY = str '''',
      GOOGLE_API_KEY = str '''',
      HUGGINGFACE_API_KEY = str '''',
      LLM_PROVIDER = str ''mixed'',
      MIXED_ASSIGNMENTS =
        [(str ''logical'', NewFormat (str ''ollama'') (Some (str ''llama3.2''))),
         (str ''skeptical'', NewFormat (str ''ollama'') (Some (str ''mistral''))),
         (str ''synthesizer'', NewFormat (str ''ollama'') (Some (str ''phi3''))),
         (str ''creative'', NewFormat (str ''groq'') (Some (str ''llama-3.3-70b-versatile''))),
         (str ''practical'', NewFormat (str ''groq'') (Some (str ''qwen/qwen3-32b'')))],
      MODELS =
        [(str ''ollama'', str ''llama3.2''),
         (str ''groq'', str ''llama-3.1-8b-instant''),
         (str ''google'', str ''gemini-1.5-flash''),
         (str ''huggingface'', str ''mistralai/Mistral-7B-Instruct-v0.3'')],
      OLLAMA_BASE_URL = str ''http://localhost:11434'',
      OLLAMA_TIMEOUT = 180,
      MAX_ROUNDS = 3,
      ENABLE_SYNTHESIZER = True,
      PERSONA_TEMPERATURES =
        [(str ''logical'', 3 / 10),
         (str ''creative'', 8 / 10),
         (str ''skeptical'', 5 / 10),
         (str ''practical'', 4 / 10),
         (str ''synthesizer'', 3 / 10)]\<rparr>"

section \<open>llm\_clients.py\<close>

text \<open>
  A client object is its class and the attributes its constructor stores. What
  \<open>generate\<close> returns is decided outside the program (a local daemon or a remote
  service), so the engine is given the backend as a function of the client, the request
  and the state of the outside world; it returns the text or the exception raised,
  and the next state of the world.
\<close>

datatype client =
    OllamaClient pystr pystr int
  | GroqClient pystr pystr
  | GoogleClient pystr pystr
  | HuggingFaceClient pystr pystr pystr

record chat_entry =
  role :: pystr
  entry_content :: pystr

type_synonym 'w backend =
  "client \<Rightarrow> pystr \<Rightarrow> chat_entry list \<Rightarrow> rat \<Rightarrow> 'w \<Rightarrow> (error + pystr) \<times> 'w"

text \<open>\<open>x or d\<close> on strings: the empty string is falsy.\<close>

definition str_or :: "pystr \<Rightarrow> pystr \<Rightarrow> pystr" where
  "str_or x d = (if x = [] then d else x)"

definition create_client :: "config \<Rightarrow> pystr \<Rightarrow> pystr \<Rightarrow> pystr \<Rightarrow> error + client" where
  "create_client cfg provider api_key model =
     (if provider = str ''ollama'' then
        Inr (OllamaClient (str_or model (str ''llama3.2'')) (str ''http://localhost:11434'')
               (OLLAMA_TIMEOUT cfg))
      else if provider = str ''groq'' then
        Inr (GroqClient api_key (str_or model (str ''llama-3.1-8b-instant'')))
      else if provider = str ''google'' then
        Inr (GoogleClient api_key (str_or model (str ''gemini-1.5-flash'')))
      else if provider = str ''huggingface'' then
        Inr (HuggingFaceClient api_key (str_or model (str ''mistralai/Mistral-7B-Instruct-v0.3''))
               (str ''https://api-inference.huggingface.co/models/''
                  @ str_or model (str ''mistralai/Mistral-7B-Instruct-v0.3'')))
      else
        Inl (ValueError (str ''Unknown provider: '' @ provider
                           @ str ''. Use: ollama, groq, google, huggingface'')))"

section \<open>discussion.py\<close>

record Message =
  persona_key :: pystr
  persona_name :: pystr
  emoji :: pystr
  content :: pystr
  round_num :: int

record Discussion =
  user_input :: pystr
  messages :: "Message list"
  clients :: "(pystr, client) dict"

definition get_api_key :: "config \<Rightarrow> pystr \<Rightarrow> pystr" where
  "get_api_key cfg provider =
     dict_get
       [(str ''groq'', GROQ_API_KEY cfg),
        (str ''google'', GOOGLE_API_KEY cfg),
        (str ''huggingface'', HUGGINGFACE_API_KEY cfg),
        (str ''ollama'', str '''')]
       provider (str '''')"

text \<open>
  The loop of the mixed mode over \<open>MIXED_ASSIGNMENTS.items()\<close>: the first provider the
  factory refuses ends the loop with its exception.
\<close>

fun setup_mixed ::
  "config \<Rightarrow> (pystr, assignment) dict \<Rightarrow> (pystr, client) dict \<Rightarrow> error + (pystr, client) dict"
where
  "setup_mixed cfg [] cs = Inr cs"
| "setup_mixed cfg ((pkey, assignment) # rest) cs =
     (let (provider, model) =
            (case assignment of
               NewFormat p m \<Rightarrow>
                 (p, case m of Some x \<Rightarrow> x | None \<Rightarrow> dict_get (MODELS cfg) p (str ''''))
             | OldFormat p \<Rightarrow> (p, dict_get (MODELS cfg) p (str '''')));
          api_key = get_api_key cfg provider
      in case create_client cfg provider api_key model of
           Inl e \<Rightarrow> Inl e
         | Inr c \<Rightarrow> setup_mixed cfg rest (dict_set cs pkey c))"

text \<open>The loop of the uniform mode: every persona of the order gets the one client.\<close>

fun setup_uniform :: "client \<Rightarrow> pystr list \<Rightarrow> (pystr, client) dict \<Rightarrow> (pystr, client) dict" where
  "setup_uniform c [] cs = cs"
| "setup_uniform c (pkey # rest) cs = setup_uniform c rest (dict_set cs pkey c)"

definition setup_clients :: "config \<Rightarrow> Discussion \<Rightarrow> error + Discussion" where
  "setup_clients cfg d =
     (if LLM_PROVIDER cfg = str ''mixed'' then
        (case setup_mixed cfg (MIXED_ASSIGNMENTS cfg) (clients d) of
           Inl e \<Rightarrow> Inl e
         | Inr cs \<Rightarrow> Inr (d\<lparr>clients := cs\<rparr>))
      else
        (let provider = LLM_PROVIDER cfg;
             api_key = get_api_key cfg provider;
             model = dict_get (MODELS cfg) provider (str '''')
         in case create_client cfg provider api_key model of
              Inl e \<Rightarrow> Inl e
            | Inr c \<Rightarrow>
                (let order = (if ENABLE_SYNTHESIZER cfg then RESPONSE_ORDER_WITH_SYNTH
                              else RESPONSE_ORDER)
                 in Inr (d\<lparr>clients := setup_uniform c order (clients d)\<rparr>))))"

text \<open>
  \<open>Discussion(user_input=...)\<close>: the dataclass constructor with the default (empty)
  transcript and bindings, followed by \<open>__post_init__\<close>. An exception there leaves no
  session object behind.
\<close>

definition new_Discussion :: "config \<Rightarrow> pystr \<Rightarrow> error + Discussion" where
  "new_Discussion cfg topic = setup_clients cfg \<lparr>user_input = topic, messages = [], clients = []\<rparr>"

definition history_entry :: "pystr \<Rightarrow> Message \<Rightarrow> chat_entry" where
  "history_entry for_persona msg =
     \<lparr>role = (if persona_key msg = for_persona then str ''assistant'' else str ''user''),
      entry_content = str ''['' @ persona_name msg @ str ''] '' @ content msg\<rparr>"

definition build_chat_history :: "Discussion \<Rightarrow> pystr \<Rightarrow> error + chat_entry list" where
  "build_chat_history d for_persona =
     (let history = [\<lparr>role = str ''user'', entry_content = str ''[User] '' @ user_input d\<rparr>];
          history = history @ map (history_entry for_persona) (messages d)
      in case map_of PERSONAS for_persona of
           None \<Rightarrow> Inl (KeyError for_persona)
         | Some persona \<Rightarrow>
             Inr (history @
                  [\<lparr>role = str ''user'',
                    entry_content =
                      str ''Now respond naturally as yourself ('' @ name persona
                      @ str '') to this ongoing discussion. Keep it conversational and chat-like.''\<rparr>]))"

text \<open>
  One turn. The two lookups come first and raise \<open>KeyError\<close> without touching the
  backend; the backend's exception, if any, is handed on unchanged.
\<close>

definition generate_response ::
  "config \<Rightarrow> 'w backend \<Rightarrow> Discussion \<Rightarrow> pystr \<Rightarrow> int \<Rightarrow> 'w \<Rightarrow> (error + Message) \<times> 'w"
where
  "generate_response cfg gen d pkey rnd w =
     (case map_of PERSONAS pkey of
        None \<Rightarrow> (Inl (KeyError pkey), w)
      | Some persona \<Rightarrow>
          (case map_of (clients d) pkey of
             None \<Rightarrow> (Inl (KeyError pkey), w)
           | Some cl \<Rightarrow>
               (let temperature = dict_get (PERSONA_TEMPERATURES cfg) pkey (5 / 10)
                in case build_chat_history d pkey of
                     Inl e \<Rightarrow> (Inl e, w)
                   | Inr history \<Rightarrow>
                       (case gen cl (system_prompt persona) history temperature w of
                          (Inl e, w') \<Rightarrow> (Inl e, w')
                        | (Inr text, w') \<Rightarrow>
                            (Inr \<lparr>persona_key = pkey,
                                  persona_name = name persona,
                                  emoji = glyph persona,
                                  content = strip text,
                                  round_num = rnd\<rparr>, w')))))"

text \<open>
  \<open>run_discussion\<close> is a generator; the model drives it to its end and returns what a
  caller consuming every item sees: the messages yielded in order, how the generator
  ended (\<open>Inr ()\<close> when it was exhausted, \<open>Inl e\<close> when \<open>e\<close> was raised), the session
  and the outside world afterwards.
\<close>

record 'w run_result =
  yielded :: "Message list"
  outcome :: "error + unit"
  session :: Discussion
  world :: 'w

text \<open>The test that makes the inner loop \<open>continue\<close>.\<close>

definition skips :: "pystr \<Rightarrow> int \<Rightarrow> int \<Rightarrow> bool" where
  "skips pkey rnd rounds =
     (if pkey = str ''synthesizer'' \<and> rnd < rounds then (if rnd = 1 then True else False)
      else False)"

text \<open>The inner loop, over the personas of one round.\<close>

fun run_round ::
  "config \<Rightarrow> 'w backend \<Rightarrow> int \<Rightarrow> int \<Rightarrow> pystr list \<Rightarrow> Discussion \<Rightarrow> 'w \<Rightarrow> 'w run_result"
where
  "run_round cfg gen rounds rnd [] d w =
     \<lparr>yielded = [], outcome = Inr (), session = d, world = w\<rparr>"
| "run_round cfg gen rounds rnd (pkey # rest) d w =
     (if skips pkey rnd rounds then run_round cfg gen rounds rnd rest d w
      else
        (case generate_response cfg gen d pkey rnd w of
           (Inl e, w') \<Rightarrow> \<lparr>yielded = [], outcome = Inl e, session = d, world = w'\<rparr>
         | (Inr message, w') \<Rightarrow>
             (let r = run_round cfg gen rounds rnd rest (d\<lparr>messages := messages d @ [message]\<rparr>) w'
              in r\<lparr>yielded := message # yielded r\<rparr>)))"

text \<open>The outer loop, over the round numbers still to run.\<close>

fun run_rounds ::
  "config \<Rightarrow> 'w backend \<Rightarrow> int \<Rightarrow> pystr list \<Rightarrow> int list \<Rightarrow> Discussion \<Rightarrow> 'w \<Rightarrow> 'w run_result"
where
  "run_rounds cfg gen rounds order [] d w =
     \<lparr>yielded = [], outcome = Inr (), session = d, world = w\<rparr>"
| "run_rounds cfg gen rounds order (rnd # rest) d w =
     (let r = run_round cfg gen rounds rnd order d w
      in case outcome r of
           Inl e \<Rightarrow> r
         | Inr _ \<Rightarrow>
             (let r' = run_rounds cfg gen rounds order rest (session r) (world r)
              in r'\<lparr>yielded := yielded r @ yielded r'\<rparr>))"

text \<open>
  \<open>rounds or config.MAX_ROUNDS\<close>: the argument is an \<open>int\<close> or \<open>None\<close>, and both
  \<open>None\<close> and \<open>0\<close> are falsy.
\<close>

definition rounds_or :: "int option \<Rightarrow> int \<Rightarrow> int" where
  "rounds_or rounds dflt = (case rounds of None \<Rightarrow> dflt | Some n \<Rightarrow> if n = 0 then dflt else n)"

definition run_discussion ::
  "config \<Rightarrow> 'w backend \<Rightarrow> Discussion \<Rightarrow> int option \<Rightarrow> 'w \<Rightarrow> 'w run_result"
where
  "run_discussion cfg gen d rounds w =
     (let rounds = rounds_or rounds (MAX_ROUNDS cfg);
          order = (if ENABLE_SYNTHESIZER cfg then RESPONSE_ORDER_WITH_SYNTH else RESPONSE_ORDER)
      in run_rounds cfg gen rounds order [1..rounds] d w)"

definition transcript_line :: "Message \<Rightarrow> pystr" where
  "transcript_line msg =
     str ''['' @ emoji msg @ str '' '' @ persona_name msg @ str '']\<newline>'' @ content msg
     @ str ''\<newline>''"

definition get_transcript :: "Discussion \<Rightarrow> pystr" where
  "get_transcript d =
     (let lines = [str ''[User]\<newline>'' @ user_input d @ str ''\<newline>''];
          lines = lines @ map transcript_line (messages d)
      in join (str ''\<newline>'') lines)"

definition summary_prompt :: pystr where
  \<open>summary_prompt = str (
     ''You are summarizing a group discussion. Based on the transcript, provide:\<newline>'' @
     ''\<newline>'' @
     ''1. **Key Points by Participant** - What each person contributed\<newline>'' @
     ''2. **Main Disagreements** - Where opinions differed\<newline>'' @
     ''3. **Areas of Agreement** - Where opinions overlapped\<newline>'' @
     ''\<newline>'' @
     ''Keep it concise and well-organized. Use bullet points.'')\<close>

definition takeaway_prompt :: pystr where
  \<open>takeaway_prompt = str (
     ''You are providing a final balanced takeaway from a group discussion. \<newline>'' @
     ''\<newline>'' @
     ''Write a calm, neutral conclusion that:\<newline>'' @
     ''- Combines insights from all perspectives\<newline>'' @
     ''- Does NOT claim there is one "correct answer"\<newline>'' @
     ''- Clearly states uncertainties and trade-offs\<newline>'' @
     ''- Is helpful and actionable where possible\<newline>'' @
     ''\<newline>'' @
     ''Keep it to 2-3 short paragraphs.'')\<close>

text \<open>
  \<open>list(discussion.clients.values())[0]\<close> raises \<open>IndexError\<close> on an empty dict; the
  value returned is what \<open>generate\<close> returned.
\<close>

definition generate_summary :: "'w backend \<Rightarrow> Discussion \<Rightarrow> 'w \<Rightarrow> (error + pystr) \<times> 'w" where
  "generate_summary gen discussion w =
     (let transcript = get_transcript discussion
      in case dict_values (clients discussion) of
           [] \<Rightarrow> (Inl IndexError, w)
         | cl # _ \<Rightarrow>
             gen cl summary_prompt
               [\<lparr>role = str ''user'',
                 entry_content = str ''Discussion transcript:\<newline>\<newline>'' @ transcript
                   @ str ''\<newline>\<newline>Please summarize this discussion.''\<rparr>]
               (3 / 10) w)"

definition generate_takeaway :: "'w backend \<Rightarrow> Discussion \<Rightarrow> 'w \<Rightarrow> (error + pystr) \<times> 'w" where
  "generate_takeaway gen discussion w =
     (let transcript = get_transcript discussion
      in case dict_values (clients discussion) of
           [] \<Rightarrow> (Inl IndexError, w)
         | cl # _ \<Rightarrow>
             gen cl takeaway_prompt
               [\<lparr>role = str ''user'',
                 entry_content = str ''Discussion transcript:\<newline>\<newline>'' @ transcript
                   @ str ''\<newline>\<newline>Provide a final balanced takeaway.''\<rparr>]
               (3 / 10) w)"

section \<open>main.py\<close>

text \<open>
  The command line after \<open>argparse\<close>: the optional positional topic, \<open>--file\<close>,
  \<open>--rounds\<close> (an \<open>int\<close>, \<open>config.MAX_ROUNDS\<close> when absent) and \<open>--no-synth\<close>.
  The file system maps a path to the text of the file, and standard input is the list
  of lines still to be read.

  \<open>main\<close> is modelled up to the \<open>try\<close> statement that ends it. What that statement
  does (the call \<open>run_discussion(user_input)\<close> of \<open>main.py\<close>, which prints through the
  \<open>rich\<close> console, builds the session, drives the rounds and the two post-processors,
  and the handlers around it) is taken as a parameter: a function of the configuration,
  the topic and the outside world that returns how it ended, the messages it printed,
  the texts it rendered, the session it built and the world it left. Before that point
  \<open>main\<close> prints fixed texts only, which are left out.
\<close>

record args =
  arg_topic :: "pystr option"
  arg_file :: "pystr option"
  arg_rounds :: int
  arg_no_synth :: bool

record 'w main_result =
  exit_with :: "error + unit"
  printed :: "Message list"
  rendered :: "pystr list"
  created :: "Discussion option"
  world_after :: 'w

text \<open>
  The loop of \<open>get_user_input\<close>: a second empty line in a row, or the end of the
  input, ends it.
\<close>

fun read_lines :: "pystr list \<Rightarrow> nat \<Rightarrow> pystr list \<Rightarrow> pystr list" where
  "read_lines [] empty_count lines = lines"
| "read_lines (line # stdin) empty_count lines =
     (if line = str '''' then
        (if empty_count + 1 \<ge> 2 then lines
         else read_lines stdin (empty_count + 1) (lines @ [line]))
      else read_lines stdin 0 (lines @ [line]))"

definition get_user_input :: "pystr list \<Rightarrow> pystr" where
  "get_user_input stdin = strip (join (str ''\<newline>'') (read_lines stdin 0 []))"

text \<open>
  The three ways \<open>main\<close> obtains the topic. An option that is absent or the empty
  string is falsy. Only the file's text and the interactive input are trimmed.
\<close>

definition truthy :: "pystr option \<Rightarrow> bool" where
  "truthy x = (case x of None \<Rightarrow> False | Some s \<Rightarrow> s \<noteq> str '''')"

definition read_topic :: "(pystr \<Rightarrow> pystr option) \<Rightarrow> pystr list \<Rightarrow> args \<Rightarrow> error + pystr" where
  "read_topic files stdin a =
     (if truthy (arg_file a) then
        (case files (the (arg_file a)) of
           None \<Rightarrow> Inl (OSError (the (arg_file a)))
         | Some text \<Rightarrow> Inr (strip text))
      else if truthy (arg_topic a) then Inr (the (arg_topic a))
      else Inr (get_user_input stdin))"

definition missing_api_key :: "config \<Rightarrow> bool" where
  "missing_api_key cfg =
     (let provider = LLM_PROVIDER cfg
      in if provider = str ''ollama'' then False
         else if provider \<in> set [str ''groq'', str ''google'', str ''huggingface''] then
           dict_get
             [(str ''groq'', GROQ_API_KEY cfg),
              (str ''google'', GOOGLE_API_KEY cfg),
              (str ''huggingface'', HUGGINGFACE_API_KEY cfg)]
             provider (str '''') = str ''''
         else False)"

definition override_config :: "config \<Rightarrow> args \<Rightarrow> config" where
  "override_config cfg a =
     (let cfg = (if arg_rounds a \<noteq> 0 then cfg\<lparr>MAX_ROUNDS := arg_rounds a\<rparr> else cfg);
          cfg = (if arg_no_synth a then cfg\<lparr>ENABLE_SYNTHESIZER := False\<rparr> else cfg)
      in cfg)"

definition main ::
  "config \<Rightarrow> (config \<Rightarrow> pystr \<Rightarrow> 'w \<Rightarrow> 'w main_result) \<Rightarrow> (pystr \<Rightarrow> pystr option) \<Rightarrow> pystr list
     \<Rightarrow> args \<Rightarrow> 'w \<Rightarrow> 'w main_result"
where
  "main cfg0 run files stdin a w =
     (let cfg = override_config cfg0 a;
          stop = (\<lambda>e. \<lparr>exit_with = Inl e, printed = [], rendered = [], created = None,
                         world_after = w\<rparr>)
      in if missing_api_key cfg then stop (SystemExit 1)
         else
           (case read_topic files stdin a of
              Inl e \<Rightarrow> stop e
            | Inr topic \<Rightarrow>
                if topic = str '''' then stop (SystemExit 1)
                else run cfg topic w))"

section \<open>The turns of a run\<close>

text \<open>
  What follows is not in the source: it names the sequence of turns the two loops of
  \<open>run_discussion\<close> visit, so that properties of a run can be stated about it.
  \<open>round_turns\<close> lists the personas of one round that are not skipped, \<open>turns\<close>
  chains the rounds, and \<open>run_turns\<close> takes the turns of such a list one after the
  other, exactly as the loop body does. \<open>turn_of\<close> reads the turn off a message.
\<close>

definition turn_of :: "Message \<Rightarrow> pystr \<times> int" where
  "turn_of m = (persona_key m, round_num m)"

definition round_turns :: "int \<Rightarrow> pystr list \<Rightarrow> int \<Rightarrow> (pystr \<times> int) list" where
  "round_turns rounds order rnd = map (\<lambda>k. (k, rnd)) (filter (\<lambda>k. \<not> skips k rnd rounds) order)"

definition turns :: "int \<Rightarrow> pystr list \<Rightarrow> int list \<Rightarrow> (pystr \<times> int) list" where
  "turns rounds order rnds = concat (map (round_turns rounds order) rnds)"

fun run_turns ::
  "config \<Rightarrow> 'w backend \<Rightarrow> (pystr \<times> int) list \<Rightarrow> Discussion \<Rightarrow> 'w \<Rightarrow> 'w run_result"
where
  "run_turns cfg gen [] d w = \<lparr>yielded = [], outcome = Inr (), session = d, world = w\<rparr>"
| "run_turns cfg gen ((pkey, rnd) # ts) d w =
     (case generate_response cfg gen d pkey rnd w of
        (Inl e, w') \<Rightarrow> \<lparr>yielded = [], outcome = Inl e, session = d, world = w'\<rparr>
      | (Inr message, w') \<Rightarrow>
          (let r = run_turns cfg gen ts (d\<lparr>messages := messages d @ [message]\<rparr>) w'
           in r\<lparr>yielded := message # yielded r\<rparr>))"

text \<open>The turns of a run of \<open>run_discussion\<close>, from its arguments and the configuration.\<close>

definition discussion_turns :: "config \<Rightarrow> int option \<Rightarrow> (pystr \<times> int) list" where
  "discussion_turns cfg rounds =
     turns (rounds_or rounds (MAX_ROUNDS cfg))
       (if ENABLE_SYNTHESIZER cfg then RESPONSE_ORDER_WITH_SYNTH else RESPONSE_ORDER)
       [1..rounds_or rounds (MAX_ROUNDS cfg)]"

text \<open>A backend that answers every request.\<close>

definition never_fails :: "'w backend \<Rightarrow> bool" where
  "never_fails gen = (\<forall>cl sp h t w. \<exists>reply w'. gen cl sp h t w = (Inr reply, w'))"

section \<open>Concrete backends and sessions\<close>

text \<open>
  The world of these backends is the number of requests received so far.
  \<open>pad_backend\<close> answers with one \<open>x\<close> per context entry, between two spaces;
  \<open>failing_backend k\<close> does the same, except that request number \<open>k\<close> times out.
\<close>

definition pad_backend :: "nat backend" where
  "pad_backend cl sp history t n =
     (Inr (str '' '' @ replicate (length history) 120 @ str '' ''), Suc n)"

definition failing_backend :: "nat \<Rightarrow> nat backend" where
  "failing_backend k cl sp history t n =
     (if n = k then (Inl (BackendError (str ''timed out'')), Suc n)
      else pad_backend cl sp history t n)"

definition demo_topic :: pystr where
  "demo_topic = str ''Should companies adopt a 4-day work week?''"

definition demo_session :: Discussion where
  "demo_session = projr (new_Discussion default_config demo_topic)"

text \<open>
  The run of the first two turns of a one-round discussion on \<open>demo_session\<close>, with
  the backend whose third request times out; and the persona and the client of the
  third turn.
\<close>

definition two_turns :: "nat run_result" where
  "two_turns =
     run_turns default_config (failing_backend 2) (take 2 (discussion_turns default_config (Some 1)))
       demo_session 0"

definition skeptical_client :: client where
  "skeptical_client = OllamaClient (str ''mistral'') (str ''http://localhost:11434'') 180"

definition skeptical_persona :: persona where
  "skeptical_persona =
     \<lparr>name = str ''Skeptical Thinker'', glyph = [0x1F914], system_prompt = skeptical_system_prompt\<rparr>"

section \<open>A backend that keeps the contexts it is given\<close>

text \<open>
  To state which contexts a run hands to the backend, \<open>recording gen\<close> answers as
  \<open>gen\<close> does and adds every context it receives to a list kept beside the world of
  \<open>gen\<close>, in the order of the requests. \<open>first_run\<close> and \<open>second_run\<close> are two
  one-round runs in a row on \<open>demo_session\<close>; \<open>second_run_recorded\<close> is the second of
  them with the recording backend.
\<close>

definition recording :: "'w backend \<Rightarrow> ('w \<times> chat_entry list list) backend" where
  "recording gen cl sp history t s =
     (case gen cl sp history t (fst s) of (res, w') \<Rightarrow> (res, (w', snd s @ [history])))"

definition first_run :: "nat run_result" where
  "first_run = run_discussion default_config pad_backend demo_session (Some 1) 0"

definition second_run :: "nat run_result" where
  "second_run =
     run_discussion default_config pad_backend (session first_run) (Some 1) (world first_run)"

definition second_run_recorded :: "(nat \<times> chat_entry list list) run_result" where
  "second_run_recorded =
     run_discussion default_config (recording pad_backend) (session first_run) (Some 1)
       (world first_run, [])"

section \<open>Backend kinds\<close>

text \<open>
  Names for stating what the factory accepts: the kinds \<open>create_client\<close> has a
  branch for, the kind an entry of \<open>MIXED_ASSIGNMENTS\<close> declares, the kinds a
  configuration declares for its personas (one per entry in the mixed mode, the one
  \<open>LLM_PROVIDER\<close> otherwise), and the exception of the factory's last branch.
\<close>

definition supported_kinds :: "pystr list" where
  "supported_kinds = [str ''ollama'', str ''groq'', str ''google'', str ''huggingface'']"

definition provider_of :: "assignment \<Rightarrow> pystr" where
  "provider_of a = (case a of NewFormat p m \<Rightarrow> p | OldFormat p \<Rightarrow> p)"

definition declared_kinds :: "config \<Rightarrow> pystr list" where
  "declared_kinds cfg =
     (if LLM_PROVIDER cfg = str ''mixed'' then map (\<lambda>x. provider_of (snd x)) (MIXED_ASSIGNMENTS cfg)
      else [LLM_PROVIDER cfg])"

definition unknown_provider :: "pystr \<Rightarrow> error" where
  "unknown_provider kind =
     ValueError (str ''Unknown provider: '' @ kind @ str ''. Use: ollama, groq, google, huggingface'')"

text \<open>A configuration that assigns the kind \<open>unknown-provider\<close> to one persona.\<close>

definition unknown_provider_config :: config where
  "unknown_provider_config =
     default_config\<lparr>MIXED_ASSIGNMENTS :=
       [(str ''logical'', NewFormat (str ''ollama'') (Some (str ''llama3.2''))),
        (str ''skeptical'', NewFormat (str ''unknown-provider'') (Some (str ''mistral''))),
        (str ''synthesizer'', NewFormat (str ''ollama'') (Some (str ''phi3'')))]\<rparr>"

section \<open>Rejected command lines\<close>

text \<open>
  How \<open>main\<close> ends at \<open>sys.exit(1)\<close>: nothing printed by the discussion, no session,
  the outside world untouched. \<open>blank_args\<close> and \<open>blank_files\<close> are a command line
  with \<open>--file topic.txt\<close> and a file system where that file holds only white space.
  \<open>counting_run\<close> stands for the last statement of \<open>main\<close> in the examples: it
  ends normally and leaves its mark on the world, so that a world left as it was shows
  that the statement was not reached.
\<close>

definition rejected :: "'w \<Rightarrow> 'w main_result" where
  "rejected w =
     \<lparr>exit_with = Inl (SystemExit 1), printed = [], rendered = [], created = None, world_after = w\<rparr>"

definition blank_args :: args where
  "blank_args = \<lparr>arg_topic = None, arg_file = Some (str ''topic.txt''), arg_rounds = 3, arg_no_synth = False\<rparr>"

definition blank_files :: "pystr \<Rightarrow> pystr option" where
  "blank_files path = (if path = str ''topic.txt'' then Some (str '' \<newline> '') else None)"

definition counting_run :: "config \<Rightarrow> pystr \<Rightarrow> nat \<Rightarrow> nat main_result" where
  "counting_run cfg topic n =
     \<lparr>exit_with = Inr (), printed = [], rendered = [], created = None, world_after = Suc n\<rparr>"

section \<open>Reading a transcript back\<close>

text \<open>
  The source only writes the transcript text. The specification's round trip reads it
  back into pairs of a speaker header (marker, a space, display name) and a content;
  \<open>parse_transcript\<close> is that reading, written here from the layout
  \<open>get_transcript\<close> produces. The text is cut into lines (\<open>split_on\<close> is
  \<open>str.split\<close> for a one-character separator). After the \<open>[User]\<close> line come the
  lines of the topic; a message starts at an empty line that is followed by a line in
  square brackets, the header, and its content is made of the lines up to the next such
  start, or up to the last line of the text, which is empty. A topic or a content may
  so have any number of lines. \<open>embeds_header\<close> says that a text has, among its own
  lines, an empty line followed by a line in square brackets.
\<close>

fun split_on :: "nat \<Rightarrow> pystr \<Rightarrow> pystr list" where
  "split_on sep [] = [[]]"
| "split_on sep (c # cs) =
     (if c = sep then [] # split_on sep cs
      else (case split_on sep cs of
              [] \<Rightarrow> [[c]]
            | piece # pieces \<Rightarrow> (c # piece) # pieces))"

definition bracketed :: "pystr \<Rightarrow> bool" where
  "bracketed s = (2 \<le> length s \<and> hd s = 91 \<and> last s = 93)"

definition unbracket :: "pystr \<Rightarrow> pystr" where
  "unbracket s = butlast (tl s)"

fun has_break :: "pystr list \<Rightarrow> bool" where
  "has_break (l # l' # ls) = ((l = [] \<and> bracketed l') \<or> has_break (l' # ls))"
| "has_break _ = False"

definition embeds_header :: "pystr \<Rightarrow> bool" where
  "embeds_header s = has_break (split_on 10 s)"

text \<open>
  \<open>read_blocks h body ls\<close> reads the lines \<open>ls\<close> that follow the lines \<open>body\<close>
  already read of the block with the header \<open>h\<close>.
\<close>

fun read_blocks :: "pystr \<Rightarrow> pystr list \<Rightarrow> pystr list \<Rightarrow> (pystr \<times> pystr) list option" where
  "read_blocks h body [] = None"
| "read_blocks h body [l] =
     (if l = [] \<and> body \<noteq> [] then Some [(h, join [10] body)] else None)"
| "read_blocks h body (l # l' # ls) =
     (if l = [] \<and> bracketed l' then
        (if body = [] then None
         else (case read_blocks (unbracket l') [] ls of
                 None \<Rightarrow> None
               | Some ps \<Rightarrow> Some ((h, join [10] body) # ps)))
      else read_blocks h (body @ [l]) (l' # ls))"

text \<open>The first block is the topic, under the header \<open>User\<close>; the pairs of the messages follow it.\<close>

definition parse_transcript :: "pystr \<Rightarrow> (pystr \<times> pystr) list option" where
  "parse_transcript t =
     (case split_on 10 t of
        [] \<Rightarrow> None
      | first # rest \<Rightarrow>
          (if first = str ''[User]'' then map_option tl (read_blocks (str ''User'') [] rest)
           else None))"

text \<open>
  Two sessions on the same topic: in one the Logical Thinker's single message has a
  content with an empty line and a line in square brackets, in the other the same text
  is spread over two messages. A third session, whose contents have several lines each.
\<close>

definition logical_says :: "pystr \<Rightarrow> Message" where
  "logical_says reply =
     \<lparr>persona_key = str ''logical'', persona_name = str ''Logical Thinker'', emoji = [0x1F9E0],
      content = reply, round_num = 1\<rparr>"

definition creative_says :: "pystr \<Rightarrow> Message" where
  "creative_says reply =
     \<lparr>persona_key = str ''creative'', persona_name = str ''Creative Thinker'', emoji = [0x1F3A8],
      content = reply, round_num = 1\<rparr>"

definition merged_session :: Discussion where
  "merged_session =
     demo_session\<lparr>messages :=
       [logical_says (str ''a\<newline>\<newline>['' @ [0x1F3A8] @ str '' Creative Thinker]\<newline>b'')]\<rparr>"

definition split_session :: Discussion where
  "split_session = demo_session\<lparr>messages := [logical_says (str ''a''), creative_says (str ''b'')]\<rparr>"

definition paragraphs_session :: Discussion where
  "paragraphs_session =
     demo_session\<lparr>user_input := str ''Q1\<newline>\<newline>Q2'',
       messages := [logical_says (str ''a\<newline>\<newline>b''), creative_says (str ''[c]\<newline>'')]\<rparr>"

section \<open>The loops of a run, turn by turn\<close>

lemma str_eq_iff: "str a = str b \<longleftrightarrow> a = b"
  by (simp add: str_def inj_map_eq_map[OF inj_of_char])

lemma build_chat_history_eq:
  "map_of PERSONAS S = Some p \<Longrightarrow>
   build_chat_history d S =
     Inr (\<lparr>role = str ''user'', entry_content = str ''[User] '' @ user_input d\<rparr>
          # map (history_entry S) (messages d)
          @ [\<lparr>role = str ''user'',
               entry_content = str ''Now respond naturally as yourself ('' @ name p
                 @ str '') to this ongoing discussion. Keep it conversational and chat-like.''\<rparr>])"
  by (simp add: build_chat_history_def)

lemma generate_response_Inr:
  "generate_response cfg gen d k rnd w = (Inr m, w') \<Longrightarrow> persona_key m = k \<and> round_num m = rnd"
  by (auto simp: generate_response_def Let_def split: option.splits sum.splits prod.splits)

lemma run_round_turns:
  "run_round cfg gen rounds rnd order d w = run_turns cfg gen (round_turns rounds order rnd) d w"
  by (induction order arbitrary: d w) (auto simp: round_turns_def Let_def split: prod.splits sum.splits)

lemma run_turns_append:
  "run_turns cfg gen (ts1 @ ts2) d w =
     (let r = run_turns cfg gen ts1 d w
      in case outcome r of
           Inl e \<Rightarrow> r
         | Inr _ \<Rightarrow>
             (let r' = run_turns cfg gen ts2 (session r) (world r)
              in r'\<lparr>yielded := yielded r @ yielded r'\<rparr>))"
  by (induction ts1 arbitrary: d w) (auto simp: Let_def split: prod.splits sum.splits)

lemma run_rounds_turns:
  "run_rounds cfg gen rounds order rnds d w = run_turns cfg gen (turns rounds order rnds) d w"
  by (induction rnds arbitrary: d w)
     (auto simp: turns_def run_round_turns run_turns_append Let_def split: sum.splits)

lemma run_turns_session:
  "session (run_turns cfg gen ts d w) = d\<lparr>messages := messages d @ yielded (run_turns cfg gen ts d w)\<rparr>"
  by (induction ts arbitrary: d w) (auto simp: Let_def split: prod.splits sum.splits)

lemma run_turns_done:
  "outcome (run_turns cfg gen ts d w) = Inr u \<Longrightarrow> map turn_of (yielded (run_turns cfg gen ts d w)) = ts"
  by (induction ts arbitrary: d w)
     (auto simp: Let_def turn_of_def dest: generate_response_Inr split: prod.splits sum.splits)

lemma run_turns_prefix:
  "\<exists>n \<le> length ts. map turn_of (yielded (run_turns cfg gen ts d w)) = take n ts"
proof (induction ts arbitrary: d w)
  case Nil
  then show ?case by simp
next
  case (Cons t ts)
  obtain k rnd where t: "t = (k, rnd)" by (cases t)
  show ?case
  proof (cases "generate_response cfg gen d k rnd w")
    case (Pair res w')
    show ?thesis
    proof (cases res)
      case (Inl e)
      with Pair t show ?thesis by (intro exI[of _ 0]) simp
    next
      case (Inr m)
      from Cons.IH[of "d\<lparr>messages := messages d @ [m]\<rparr>" w']
      obtain n where n: "n \<le> length ts"
        "map turn_of (yielded (run_turns cfg gen ts (d\<lparr>messages := messages d @ [m]\<rparr>) w')) = take n ts"
        by blast
      from Pair Inr have "turn_of m = (k, rnd)"
        using generate_response_Inr[of cfg gen d k rnd w m w'] by (simp add: turn_of_def)
      with Pair Inr t n show ?thesis
        by (intro exI[of _ "Suc n"]) (simp add: Let_def)
    qed
  qed
qed

subsection \<open>Counting the turns\<close>

lemma length_round_turns_with_synth:
  "length (round_turns R RESPONSE_ORDER_WITH_SYNTH rnd) = (if rnd = 1 \<and> 1 < R then 4 else 5)"
  by (simp add: round_turns_def skips_def RESPONSE_ORDER_WITH_SYNTH_def str_eq_iff)

lemma length_round_turns_plain: "length (round_turns R RESPONSE_ORDER rnd) = 4"
  by (simp add: round_turns_def skips_def RESPONSE_ORDER_def str_eq_iff)

lemma length_turns_const:
  "\<forall>r \<in> set rnds. length (round_turns R order r) = c \<Longrightarrow>
   length (turns R order rnds) = c * length rnds"
  by (induction rnds) (auto simp: turns_def)

lemma length_turns_with_synth:
  assumes "1 \<le> R"
  shows "int (length (turns R RESPONSE_ORDER_WITH_SYNTH [1..R])) = R * 5 - (if 1 < R then 1 else 0)"
proof -
  have split: "[1..R] = 1 # [2..R]"
    using assms by (simp add: upto_rec1)
  have rest: "length (turns R RESPONSE_ORDER_WITH_SYNTH [2..R]) = 5 * length [2..R]"
    by (rule length_turns_const) (simp add: length_round_turns_with_synth)
  have "turns R RESPONSE_ORDER_WITH_SYNTH [1..R] =
          round_turns R RESPONSE_ORDER_WITH_SYNTH 1 @ turns R RESPONSE_ORDER_WITH_SYNTH [2..R]"
    by (simp add: split turns_def)
  then show ?thesis
    using assms by (simp add: rest length_round_turns_with_synth)
qed

lemma length_turns_plain:
  assumes "1 \<le> R"
  shows "int (length (turns R RESPONSE_ORDER [1..R])) = R * 4"
proof -
  have "length (turns R RESPONSE_ORDER [1..R]) = 4 * length [1..R]"
    by (rule length_turns_const) (simp add: length_round_turns_plain)
  then show ?thesis using assms by simp
qed

lemma run_discussion_turns:
  "run_discussion cfg gen d rounds w =
     run_turns cfg gen
       (turns (rounds_or rounds (MAX_ROUNDS cfg))
          (if ENABLE_SYNTHESIZER cfg then RESPONSE_ORDER_WITH_SYNTH else RESPONSE_ORDER)
          [1..rounds_or rounds (MAX_ROUNDS cfg)]) d w"
  by (simp add: run_discussion_def Let_def run_rounds_turns)

lemma no_synth_turn_in_round_one:
  "1 < R \<Longrightarrow> (str ''synthesizer'', 1) \<notin> set (turns R order rnds)"
  by (auto simp: turns_def round_turns_def skips_def)

lemma message_count_aux:
  assumes "1 \<le> R" and "outcome (run_discussion cfg gen d (Some R) w) = Inr ()"
  shows "int (length (yielded (run_discussion cfg gen d (Some R) w))) =
           (if ENABLE_SYNTHESIZER cfg then R * 5 - (if 1 < R then 1 else 0) else R * 4)"
proof -
  let ?order = "if ENABLE_SYNTHESIZER cfg then RESPONSE_ORDER_WITH_SYNTH else RESPONSE_ORDER"
  from assms(1) have R: "rounds_or (Some R) (MAX_ROUNDS cfg) = R"
    by (simp add: rounds_or_def)
  have run: "run_discussion cfg gen d (Some R) w = run_turns cfg gen (turns R ?order [1..R]) d w"
    by (simp only: run_discussion_turns R)
  from assms(2) have "map turn_of (yielded (run_turns cfg gen (turns R ?order [1..R]) d w)) = turns R ?order [1..R]"
    unfolding run by (rule run_turns_done)
  then have "length (yielded (run_turns cfg gen (turns R ?order [1..R]) d w)) = length (turns R ?order [1..R])"
    by (metis length_map)
  then have len: "int (length (yielded (run_discussion cfg gen d (Some R) w))) = int (length (turns R ?order [1..R]))"
    by (simp only: run)
  show ?thesis
  proof (cases "ENABLE_SYNTHESIZER cfg")
    case True
    then show ?thesis
      using len length_turns_with_synth[OF assms(1)] by simp
  next
    case False
    then show ?thesis
      using len length_turns_plain[OF assms(1)] by simp
  qed
qed

subsection \<open>Runs that reach their end\<close>

lemma str_Nil_iff: "str a = [] \<longleftrightarrow> a = []"
  by (simp add: str_def)

lemma PERSONAS_keys: "map fst PERSONAS = RESPONSE_ORDER_WITH_SYNTH"
  by (simp add: PERSONAS_def RESPONSE_ORDER_WITH_SYNTH_def)

lemma RESPONSE_ORDER_subset: "set RESPONSE_ORDER \<subseteq> set RESPONSE_ORDER_WITH_SYNTH"
  by (simp add: RESPONSE_ORDER_def RESPONSE_ORDER_WITH_SYNTH_def)

lemma PERSONAS_defined: "k \<in> set RESPONSE_ORDER_WITH_SYNTH \<Longrightarrow> \<exists>p. map_of PERSONAS k = Some p"
proof -
  assume "k \<in> set RESPONSE_ORDER_WITH_SYNTH"
  then have "k \<in> fst ` set PERSONAS"
    by (simp only: PERSONAS_keys[symmetric] set_map)
  then have "map_of PERSONAS k \<noteq> None"
    by (simp only: map_of_eq_None_iff not_not)
  then show ?thesis by blast
qed

lemma generate_response_succeeds:
  assumes "never_fails gen" and "map_of PERSONAS k = Some p" and "map_of (clients d) k = Some cl"
  shows "\<exists>m w'. generate_response cfg gen d k rnd w = (Inr m, w')"
proof -
  from assms(2) obtain h where h: "build_chat_history d k = Inr h"
    by (simp add: build_chat_history_eq)
  from assms(1) obtain reply w' where
    "gen cl (system_prompt p) h (dict_get (PERSONA_TEMPERATURES cfg) k (5 / 10)) w = (Inr reply, w')"
    unfolding never_fails_def by blast
  with assms(2,3) h show ?thesis
    by (simp add: generate_response_def)
qed

lemma run_turns_completes:
  assumes "never_fails gen"
    and "\<forall>t \<in> set ts. fst t \<in> set RESPONSE_ORDER_WITH_SYNTH \<and> map_of (clients d) (fst t) \<noteq> None"
  shows "outcome (run_turns cfg gen ts d w) = Inr ()"
  using assms(2)
proof (induction ts arbitrary: d w)
  case Nil
  then show ?case by simp
next
  case (Cons t ts)
  obtain k rnd where t: "t = (k, rnd)" by (cases t)
  from Cons.prems t obtain p cl where "map_of PERSONAS k = Some p" "map_of (clients d) k = Some cl"
    using PERSONAS_defined[of k] by auto
  from generate_response_succeeds[OF assms(1) this]
  obtain m w' where m: "generate_response cfg gen d k rnd w = (Inr m, w')"
    by blast
  have "outcome (run_turns cfg gen ts (d\<lparr>messages := messages d @ [m]\<rparr>) w') = Inr ()"
    by (rule Cons.IH) (use Cons.prems in simp)
  with m t show ?case by (simp add: Let_def)
qed

lemma turns_keys: "t \<in> set (turns R order rnds) \<Longrightarrow> fst t \<in> set order"
  by (auto simp: turns_def round_turns_def)

lemma run_discussion_completes:
  assumes "never_fails gen"
    and "\<forall>k \<in> set RESPONSE_ORDER_WITH_SYNTH. map_of (clients d) k \<noteq> None"
  shows "outcome (run_discussion cfg gen d rounds w) = Inr ()"
  unfolding run_discussion_turns
proof (rule run_turns_completes[OF assms(1)], rule ballI)
  fix t
  assume "t \<in> set (turns (rounds_or rounds (MAX_ROUNDS cfg))
          (if ENABLE_SYNTHESIZER cfg then RESPONSE_ORDER_WITH_SYNTH else RESPONSE_ORDER)
          [1..rounds_or rounds (MAX_ROUNDS cfg)])"
  then have "fst t \<in> set (if ENABLE_SYNTHESIZER cfg then RESPONSE_ORDER_WITH_SYNTH else RESPONSE_ORDER)"
    by (rule turns_keys)
  then have "fst t \<in> set RESPONSE_ORDER_WITH_SYNTH"
    using RESPONSE_ORDER_subset by (auto split: if_splits)
  with assms(2) show "fst t \<in> set RESPONSE_ORDER_WITH_SYNTH \<and> map_of (clients d) (fst t) \<noteq> None"
    by blast
qed

lemma never_fails_pad_backend: "never_fails pad_backend"
  by (simp add: never_fails_def pad_backend_def)

lemma new_Discussion_default:
  "new_Discussion default_config topic =
     Inr \<lparr>user_input = topic, messages = [],
          clients =
            [(str ''logical'', OllamaClient (str ''llama3.2'') (str ''http://localhost:11434'') 180),
             (str ''skeptical'', OllamaClient (str ''mistral'') (str ''http://localhost:11434'') 180),
             (str ''synthesizer'', OllamaClient (str ''phi3'') (str ''http://localhost:11434'') 180),
             (str ''creative'', GroqClient (str '''') (str ''llama-3.3-70b-versatile'')),
             (str ''practical'', GroqClient (str '''') (str ''qwen/qwen3-32b''))]\<rparr>"
  by (simp add: new_Discussion_def setup_clients_def default_config_def create_client_def
        get_api_key_def dict_get_def str_or_def str_eq_iff str_Nil_iff)

lemma demo_session_eq:
  "demo_session =
     \<lparr>user_input = demo_topic, messages = [],
      clients =
        [(str ''logical'', OllamaClient (str ''llama3.2'') (str ''http://localhost:11434'') 180),
         (str ''skeptical'', OllamaClient (str ''mistral'') (str ''http://localhost:11434'') 180),
         (str ''synthesizer'', OllamaClient (str ''phi3'') (str ''http://localhost:11434'') 180),
         (str ''creative'', GroqClient (str '''') (str ''llama-3.3-70b-versatile'')),
         (str ''practical'', GroqClient (str '''') (str ''qwen/qwen3-32b''))]\<rparr>"
  by (simp add: demo_session_def new_Discussion_default)

lemma demo_session_bound:
  "\<forall>k \<in> set RESPONSE_ORDER_WITH_SYNTH. map_of (clients demo_session) k \<noteq> None"
  by (simp add: demo_session_eq RESPONSE_ORDER_WITH_SYNTH_def str_eq_iff)

subsection \<open>Runs that a failure ends\<close>

lemma outcome_run_turns_Cons:
  "outcome (run_turns cfg gen ((k, rnd) # ts) d w) =
     (case generate_response cfg gen d k rnd w of
        (Inl e, w') \<Rightarrow> Inl e
      | (Inr m, w') \<Rightarrow> outcome (run_turns cfg gen ts (d\<lparr>messages := messages d @ [m]\<rparr>) w'))"
  by (simp add: Let_def split: prod.splits sum.splits)

lemma yielded_run_turns_Cons:
  "yielded (run_turns cfg gen ((k, rnd) # ts) d w) =
     (case generate_response cfg gen d k rnd w of
        (Inl e, w') \<Rightarrow> []
      | (Inr m, w') \<Rightarrow> m # yielded (run_turns cfg gen ts (d\<lparr>messages := messages d @ [m]\<rparr>) w'))"
  by (simp add: Let_def split: prod.splits sum.splits)

lemma world_run_turns_Cons:
  "world (run_turns cfg gen ((k, rnd) # ts) d w) =
     (case generate_response cfg gen d k rnd w of
        (Inl e, w') \<Rightarrow> w'
      | (Inr m, w') \<Rightarrow> world (run_turns cfg gen ts (d\<lparr>messages := messages d @ [m]\<rparr>) w'))"
  by (simp add: Let_def split: prod.splits sum.splits)

lemma run_turns_stopped:
  assumes "outcome (run_turns cfg gen ts d w) = Inl e"
  shows "\<exists>n w0. n < length ts \<and>
           run_turns cfg gen (take n ts) d w =
             \<lparr>yielded = yielded (run_turns cfg gen ts d w), outcome = Inr (),
              session = session (run_turns cfg gen ts d w), world = w0\<rparr> \<and>
           generate_response cfg gen (session (run_turns cfg gen ts d w)) (fst (ts ! n)) (snd (ts ! n)) w0
             = (Inl e, world (run_turns cfg gen ts d w))"
  using assms
proof (induction ts arbitrary: d w)
  case Nil
  then show ?case by simp
next
  case (Cons t ts)
  obtain k rnd where t: "t = (k, rnd)" by (cases t)
  show ?case
  proof (cases "generate_response cfg gen d k rnd w")
    case (Pair res w')
    show ?thesis
    proof (cases res)
      case (Inl e')
      with Pair t Cons.prems show ?thesis
        by (intro exI[of _ 0] exI[of _ w]) simp
    next
      case (Inr m)
      let ?d = "d\<lparr>messages := messages d @ [m]\<rparr>"
      let ?r = "run_turns cfg gen ts ?d w'"
      from Pair Inr t Cons.prems have "outcome ?r = Inl e"
        by (simp add: Let_def)
      from Cons.IH[OF this] obtain n w0 where n: "n < length ts"
        "run_turns cfg gen (take n ts) ?d w' =
           \<lparr>yielded = yielded ?r, outcome = Inr (), session = session ?r, world = w0\<rparr>"
        "generate_response cfg gen (session ?r) (fst (ts ! n)) (snd (ts ! n)) w0 = (Inl e, world ?r)"
        by blast
      with Pair Inr t show ?thesis
        by (intro exI[of _ "Suc n"] exI[of _ w0]) (simp add: Let_def)
    qed
  qed
qed

lemma turn_of_in_turns:
  "m \<in> set (yielded (run_turns cfg gen ts d w)) \<Longrightarrow> turn_of m \<in> set ts"
proof -
  assume m: "m \<in> set (yielded (run_turns cfg gen ts d w))"
  obtain n where "map turn_of (yielded (run_turns cfg gen ts d w)) = take n ts"
    using run_turns_prefix[of ts cfg gen d w] by blast
  moreover from m have "turn_of m \<in> set (map turn_of (yielded (run_turns cfg gen ts d w)))"
    by simp
  ultimately show ?thesis
    by (metis in_set_takeD)
qed

lemma turns_one_round_with_synth:
  "turns 1 RESPONSE_ORDER_WITH_SYNTH [1..1] = map (\<lambda>k. (k, 1)) RESPONSE_ORDER_WITH_SYNTH"
  by (simp add: turns_def round_turns_def skips_def)

lemma PERSONAS_logical:
  "map_of PERSONAS (str ''logical'') =
     Some \<lparr>name = str ''Logical Thinker'', glyph = [0x1F9E0], system_prompt = logical_system_prompt\<rparr>"
  by (simp add: PERSONAS_def)

lemma run_discussion_discussion_turns:
  "run_discussion cfg gen d rounds w = run_turns cfg gen (discussion_turns cfg rounds) d w"
  by (simp only: run_discussion_turns discussion_turns_def)

lemma generate_response_failing_backend:
  "generate_response cfg (failing_backend j) d k rnd n =
     (case map_of PERSONAS k of
        None \<Rightarrow> (Inl (KeyError k), n)
      | Some p \<Rightarrow>
          (case map_of (clients d) k of
             None \<Rightarrow> (Inl (KeyError k), n)
           | Some cl \<Rightarrow>
               if n = j then (Inl (BackendError (str ''timed out'')), Suc n)
               else (Inr \<lparr>persona_key = k, persona_name = name p, emoji = glyph p,
                          content = strip (str '' '' @ replicate (length (messages d) + 2) 120 @ str '' ''),
                          round_num = rnd\<rparr>, Suc n)))"
  by (simp add: generate_response_def build_chat_history_def failing_backend_def pad_backend_def
        split: option.splits)

lemma discussion_turns_default_one:
  "discussion_turns default_config (Some 1) =
     [(str ''logical'', 1), (str ''creative'', 1), (str ''skeptical'', 1), (str ''practical'', 1),
      (str ''synthesizer'', 1)]"
  by (simp add: discussion_turns_def rounds_or_def default_config_def turns_def round_turns_def
        skips_def RESPONSE_ORDER_WITH_SYNTH_def)

lemma generate_response_backend_fails:
  assumes "map_of PERSONAS k = Some p" and "map_of (clients d) k = Some cl"
    and "build_chat_history d k = Inr h"
    and "gen cl (system_prompt p) h (dict_get (PERSONA_TEMPERATURES cfg) k (5 / 10)) w = (Inl e, w')"
  shows "generate_response cfg gen d k rnd w = (Inl e, w')"
  using assms by (simp add: generate_response_def)

lemma run_turns_fails_at:
  assumes n: "n < length ts"
    and t: "ts ! n = (k, rnd)"
    and pre: "outcome (run_turns cfg gen (take n ts) d w) = Inr ()"
    and fail: "generate_response cfg gen (session (run_turns cfg gen (take n ts) d w))
                 k rnd (world (run_turns cfg gen (take n ts) d w)) = (Inl e, w')"
  shows "run_turns cfg gen ts d w =
           \<lparr>yielded = yielded (run_turns cfg gen (take n ts) d w), outcome = Inl e,
            session = session (run_turns cfg gen (take n ts) d w), world = w'\<rparr>"
proof -
  let ?r0 = "run_turns cfg gen (take n ts) d w"
  from n t have ts: "ts = take n ts @ (k, rnd) # drop (Suc n) ts"
    by (metis id_take_nth_drop)
  from fail have "run_turns cfg gen ((k, rnd) # drop (Suc n) ts) (session ?r0) (world ?r0) =
      \<lparr>yielded = [], outcome = Inl e, session = session ?r0, world = w'\<rparr>"
    by simp
  with pre have "run_turns cfg gen (take n ts @ (k, rnd) # drop (Suc n) ts) d w =
      \<lparr>yielded = yielded ?r0, outcome = Inl e, session = session ?r0, world = w'\<rparr>"
    by (simp add: run_turns_append Let_def del: run_turns.simps)
  with ts show ?thesis
    by simp
qed

lemma PERSONAS_skeptical: "map_of PERSONAS (str ''skeptical'') = Some skeptical_persona"
  by (simp add: PERSONAS_def skeptical_persona_def str_eq_iff)

lemma clients_skeptical: "map_of (clients demo_session) (str ''skeptical'') = Some skeptical_client"
  by (simp add: demo_session_eq skeptical_client_def str_eq_iff)

lemma two_turns_facts:
  "outcome two_turns = Inr ()" "world two_turns = 2"
  "map turn_of (yielded two_turns) = [(str ''logical'', 1), (str ''creative'', 1)]"
  by (simp_all add: two_turns_def discussion_turns_default_one outcome_run_turns_Cons
        world_run_turns_Cons yielded_run_turns_Cons turn_of_def
        generate_response_failing_backend PERSONAS_def demo_session_eq str_eq_iff)

lemma two_turns_context:
  "build_chat_history (session two_turns) (str ''skeptical'') =
     Inr (projr (build_chat_history (session two_turns) (str ''skeptical'')))"
  by (simp add: build_chat_history_eq[OF PERSONAS_skeptical])

lemma third_request_fails:
  "failing_backend 2 skeptical_client (system_prompt skeptical_persona)
      (projr (build_chat_history (session two_turns) (str ''skeptical'')))
      (dict_get (PERSONA_TEMPERATURES default_config) (str ''skeptical'') (5 / 10))
      (world two_turns) = (Inl (BackendError (str ''timed out'')), 3)"
  by (simp add: failing_backend_def two_turns_facts)

subsection \<open>What the padding backend answers\<close>

lemma str_space: "str '' '' = [32]"
  by (simp add: str_def)

lemma strip_pad: "strip (str '' '' @ replicate n 120 @ str '' '') = replicate n 120"
proof (cases n)
  case 0
  then show ?thesis
    by (simp add: str_space strip_def lstrip_def rstrip_def isspace_def)
next
  case (Suc k)
  have l: "lstrip (str '' '' @ replicate n 120 @ str '' '') = replicate n 120 @ [32]"
    by (simp add: Suc str_space lstrip_def isspace_def)
  have "dropWhile isspace (32 # replicate n 120) = replicate n 120"
    by (simp add: Suc isspace_def)
  then have "rstrip (replicate n 120 @ [32]) = rev (replicate n 120)"
    by (simp add: rstrip_def)
  then have "rstrip (replicate n 120 @ [32]) = replicate n 120"
    by (simp only: rev_replicate)
  then show ?thesis
    by (simp only: strip_def l)
qed

lemma generate_response_pad_backend:
  "generate_response cfg pad_backend d k rnd n =
     (case map_of PERSONAS k of
        None \<Rightarrow> (Inl (KeyError k), n)
      | Some p \<Rightarrow>
          (case map_of (clients d) k of
             None \<Rightarrow> (Inl (KeyError k), n)
           | Some cl \<Rightarrow>
               (Inr \<lparr>persona_key = k, persona_name = name p, emoji = glyph p,
                     content = replicate (length (messages d) + 2) 120,
                     round_num = rnd\<rparr>, Suc n)))"
  by (simp add: generate_response_def build_chat_history_def pad_backend_def strip_pad
        del: replicate.simps split: option.splits)

lemma first_content_pad:
  assumes "map_of PERSONAS k = Some p" and "map_of (clients d) k = Some cl"
  shows "map content (yielded (run_turns cfg pad_backend ((k, rnd) # ts) d w)) \<noteq> [] \<and>
         hd (map content (yielded (run_turns cfg pad_backend ((k, rnd) # ts) d w))) =
           replicate (length (messages d) + 2) 120"
  using assms by (simp add: yielded_run_turns_Cons generate_response_pad_backend
        del: run_turns.simps replicate.simps)

lemma messages_demo_session: "messages demo_session = []"
  by (simp add: demo_session_eq)

lemma first_run_length:
  "length (yielded (run_discussion default_config pad_backend demo_session (Some 1) 0)) = 5"
proof -
  have fin: "outcome (run_discussion default_config pad_backend demo_session (Some 1) 0) = Inr ()"
    by (rule run_discussion_completes[OF never_fails_pad_backend demo_session_bound])
  have "(1::int) \<le> 1" by simp
  from message_count_aux[OF this fin] show ?thesis
    by (simp add: default_config_def)
qed

subsection \<open>The contexts of a run\<close>

lemma generate_response_recording:
  "(\<exists>e. generate_response cfg gen d k rnd w = (Inl e, w) \<and>
        generate_response cfg (recording gen) d k rnd (w, seen) = (Inl e, (w, seen))) \<or>
   (\<exists>h res w'. build_chat_history d k = Inr h \<and>
        generate_response cfg gen d k rnd w = (res, w') \<and>
        generate_response cfg (recording gen) d k rnd (w, seen) = (res, (w', seen @ [h])))"
proof (cases "map_of PERSONAS k")
  case None
  then show ?thesis
    by (simp add: generate_response_def)
next
  case (Some p)
  note p = Some
  show ?thesis
  proof (cases "map_of (clients d) k")
    case None
    with p show ?thesis
      by (simp add: generate_response_def)
  next
    case (Some cl)
    from p obtain h where h: "build_chat_history d k = Inr h"
      by (simp add: build_chat_history_eq)
    obtain res w' where g: "gen cl (system_prompt p) h (dict_get (PERSONA_TEMPERATURES cfg) k (5 / 10)) w = (res, w')"
      by (cases "gen cl (system_prompt p) h (dict_get (PERSONA_TEMPERATURES cfg) k (5 / 10)) w")
    with p Some h have "\<exists>res'. generate_response cfg gen d k rnd w = (res', w') \<and>
        generate_response cfg (recording gen) d k rnd (w, seen) = (res', (w', seen @ [h]))"
      by (cases res) (simp_all add: generate_response_def recording_def)
    with h show ?thesis
      by blast
  qed
qed

lemma run_turns_recording:
  "\<exists>hs. run_turns cfg (recording gen) ts d (w, seen) =
          \<lparr>yielded = yielded (run_turns cfg gen ts d w), outcome = outcome (run_turns cfg gen ts d w),
           session = session (run_turns cfg gen ts d w),
           world = (world (run_turns cfg gen ts d w), seen @ hs)\<rparr> \<and>
        length (yielded (run_turns cfg gen ts d w)) \<le> length hs \<and>
        (\<forall>i < length (yielded (run_turns cfg gen ts d w)).
           build_chat_history (d\<lparr>messages := messages d @ take i (yielded (run_turns cfg gen ts d w))\<rparr>)
             (persona_key (yielded (run_turns cfg gen ts d w) ! i)) = Inr (hs ! i))"
proof (induction ts arbitrary: d w seen)
  case Nil
  show ?case
    by (intro exI[of _ "[]"]) simp
next
  case (Cons t ts)
  obtain k rnd where t: "t = (k, rnd)" by (cases t)
  from generate_response_recording[of cfg gen d k rnd w seen]
  consider (quiet) e where "generate_response cfg gen d k rnd w = (Inl e, w)"
      "generate_response cfg (recording gen) d k rnd (w, seen) = (Inl e, (w, seen))"
    | (asked) h res w' where "build_chat_history d k = Inr h"
      "generate_response cfg gen d k rnd w = (res, w')"
      "generate_response cfg (recording gen) d k rnd (w, seen) = (res, (w', seen @ [h]))"
    by blast
  then show ?case
  proof cases
    case quiet
    then show ?thesis
      by (intro exI[of _ "[]"]) (simp add: t)
  next
    case asked
    show ?thesis
    proof (cases res)
      case (Inl e)
      with asked show ?thesis
        by (intro exI[of _ "[h]"]) (simp add: t)
    next
      case (Inr m)
      let ?d = "d\<lparr>messages := messages d @ [m]\<rparr>"
      let ?r = "run_turns cfg gen ts ?d w'"
      from Cons.IH[of ?d w' "seen @ [h]"] obtain hs where
        run: "run_turns cfg (recording gen) ts ?d (w', seen @ [h]) =
          \<lparr>yielded = yielded ?r, outcome = outcome ?r, session = session ?r,
           world = (world ?r, (seen @ [h]) @ hs)\<rparr>"
        and len: "length (yielded ?r) \<le> length hs"
        and ctx: "\<forall>i < length (yielded ?r).
           build_chat_history (?d\<lparr>messages := messages ?d @ take i (yielded ?r)\<rparr>)
             (persona_key (yielded ?r ! i)) = Inr (hs ! i)"
        by blast
      from asked Inr have key: "persona_key m = k"
        using generate_response_Inr[of cfg gen d k rnd w m w'] by simp
      have plain: "run_turns cfg gen (t # ts) d w = ?r\<lparr>yielded := m # yielded ?r\<rparr>"
        using asked Inr by (simp add: t Let_def)
      have rec: "run_turns cfg (recording gen) (t # ts) d (w, seen) =
          \<lparr>yielded = m # yielded ?r, outcome = outcome ?r, session = session ?r,
           world = (world ?r, seen @ h # hs)\<rparr>"
        using asked Inr run by (simp add: t Let_def)
      have ys: "yielded (run_turns cfg gen (t # ts) d w) = m # yielded ?r"
        and oc: "outcome (run_turns cfg gen (t # ts) d w) = outcome ?r"
        and se: "session (run_turns cfg gen (t # ts) d w) = session ?r"
        and wo: "world (run_turns cfg gen (t # ts) d w) = world ?r"
        by (simp_all add: plain)
      have each: "build_chat_history (d\<lparr>messages := messages d @ take i (m # yielded ?r)\<rparr>)
             (persona_key ((m # yielded ?r) ! i)) = Inr ((h # hs) ! i)"
        if i: "i < length (m # yielded ?r)" for i
      proof (cases i)
        case 0
        with asked key show ?thesis by simp
      next
        case (Suc j)
        with i have "j < length (yielded ?r)" by simp
        with ctx have "build_chat_history (?d\<lparr>messages := messages ?d @ take j (yielded ?r)\<rparr>)
             (persona_key (yielded ?r ! j)) = Inr (hs ! j)"
          by blast
        with Suc show ?thesis by simp
      qed
      show ?thesis
        unfolding ys oc se wo
        using rec len each by (intro exI[of _ "h # hs"]) simp
    qed
  qed
qed

lemma build_chat_history_Inr:
  assumes "build_chat_history d k = Inr h"
  shows "take (length (messages d)) (drop 1 h) = map (history_entry k) (messages d)"
proof -
  from assms obtain p where "map_of PERSONAS k = Some p"
    by (cases "map_of PERSONAS k") (simp_all add: build_chat_history_def)
  from build_chat_history_eq[OF this, of d] assms show ?thesis
    by auto
qed

lemma new_Discussion_fresh:
  assumes "new_Discussion cfg topic = Inr d"
  shows "messages d = [] \<and> user_input d = topic"
  using assms
  by (auto simp: new_Discussion_def setup_clients_def Let_def split: if_splits sum.splits)

lemma rerun_contexts:
  fixes cfg gen d rounds w rounds' w'
  defines "r1 \<equiv> run_discussion cfg gen d rounds w"
  defines "r2 \<equiv> run_discussion cfg gen (session r1) rounds' w'"
  defines "q2 \<equiv> run_discussion cfg (recording gen) (session r1) rounds' (w', [])"
  shows "yielded q2 = yielded r2 \<and> outcome q2 = outcome r2 \<and> fst (world q2) = world r2 \<and>
         length (yielded r2) \<le> length (snd (world q2)) \<and>
         (\<forall>i < length (yielded r2).
            build_chat_history (d\<lparr>messages := messages d @ yielded r1 @ take i (yielded r2)\<rparr>)
              (persona_key (yielded r2 ! i)) = Inr (snd (world q2) ! i) \<and>
            take (length (yielded r1)) (drop (Suc (length (messages d))) (snd (world q2) ! i)) =
              map (history_entry (persona_key (yielded r2 ! i))) (yielded r1))"
proof -
  let ?ts = "discussion_turns cfg rounds'"
  have s1: "session r1 = d\<lparr>messages := messages d @ yielded r1\<rparr>"
    unfolding r1_def run_discussion_discussion_turns by (rule run_turns_session)
  have r2: "r2 = run_turns cfg gen ?ts (session r1) w'"
    unfolding r2_def by (rule run_discussion_discussion_turns)
  have q2: "q2 = run_turns cfg (recording gen) ?ts (session r1) (w', [])"
    unfolding q2_def by (rule run_discussion_discussion_turns)
  from run_turns_recording[of cfg gen ?ts "session r1" w' "[]"]
  obtain hs where run: "q2 = \<lparr>yielded = yielded r2, outcome = outcome r2, session = session r2,
           world = (world r2, [] @ hs)\<rparr>"
    and len: "length (yielded r2) \<le> length hs"
    and ctx: "\<forall>i < length (yielded r2).
           build_chat_history ((session r1)\<lparr>messages := messages (session r1) @ take i (yielded r2)\<rparr>)
             (persona_key (yielded r2 ! i)) = Inr (hs ! i)"
    unfolding r2[symmetric] q2[symmetric] by blast
  from run have hs: "snd (world q2) = hs" and y: "yielded q2 = yielded r2"
    and o: "outcome q2 = outcome r2" and f: "fst (world q2) = world r2"
    by simp_all
  have each: "build_chat_history (d\<lparr>messages := messages d @ yielded r1 @ take i (yielded r2)\<rparr>)
              (persona_key (yielded r2 ! i)) = Inr (hs ! i) \<and>
            take (length (yielded r1)) (drop (Suc (length (messages d))) (hs ! i)) =
              map (history_entry (persona_key (yielded r2 ! i))) (yielded r1)"
    if i: "i < length (yielded r2)" for i
  proof -
    let ?d = "d\<lparr>messages := messages d @ yielded r1 @ take i (yielded r2)\<rparr>"
    have m1: "messages (session r1) = messages d @ yielded r1"
      by (subst s1) simp
    have eq: "(session r1)\<lparr>messages := messages (session r1) @ take i (yielded r2)\<rparr> = ?d"
      by (subst s1) (simp add: m1)
    from ctx i have "build_chat_history ((session r1)\<lparr>messages := messages (session r1) @ take i (yielded r2)\<rparr>)
        (persona_key (yielded r2 ! i)) = Inr (hs ! i)"
      by blast
    then have b: "build_chat_history ?d (persona_key (yielded r2 ! i)) = Inr (hs ! i)"
      by (simp only: eq)
    let ?f = "history_entry (persona_key (yielded r2 ! i))"
    let ?a = "length (messages d)" and ?b = "length (yielded r1)" and ?c = "length (take i (yielded r2))"
    from build_chat_history_Inr[OF b]
    have A: "take (?a + ?b + ?c) (drop 1 (hs ! i)) =
        map ?f (messages d) @ (map ?f (yielded r1) @ map ?f (take i (yielded r2)))"
      by (simp add: add.assoc)
    have "take ?b (drop ?a (take (?a + ?b + ?c) (drop 1 (hs ! i)))) =
        take ?b (drop ?a (map ?f (messages d) @ (map ?f (yielded r1) @ map ?f (take i (yielded r2)))))"
      by (simp only: A)
    also have "\<dots> = map ?f (yielded r1)"
      by simp
    finally have "take ?b (drop ?a (take (?a + ?b + ?c) (drop 1 (hs ! i)))) = map ?f (yielded r1)" .
    moreover have "take ?b (drop ?a (take (?a + ?b + ?c) (drop 1 (hs ! i)))) =
        take ?b (drop (Suc ?a) (hs ! i))"
      by (simp add: drop_take min_def)
    ultimately have "take (length (yielded r1)) (drop (Suc (length (messages d))) (hs ! i)) =
        map (history_entry (persona_key (yielded r2 ! i))) (yielded r1)"
      by simp
    with b show ?thesis by simp
  qed
  from y o f len each show ?thesis
    unfolding hs by blast
qed

lemma rerun_session:
  "session (run_discussion cfg gen (session (run_discussion cfg gen d rounds w)) rounds' w') =
     d\<lparr>messages := messages d @ yielded (run_discussion cfg gen d rounds w)
          @ yielded (run_discussion cfg gen (session (run_discussion cfg gen d rounds w)) rounds' w')\<rparr>"
proof -
  have s1: "session (run_discussion cfg gen d rounds w) =
      d\<lparr>messages := messages d @ yielded (run_discussion cfg gen d rounds w)\<rparr>"
    unfolding run_discussion_discussion_turns by (rule run_turns_session)
  have s2: "session (run_discussion cfg gen (session (run_discussion cfg gen d rounds w)) rounds' w') =
      (session (run_discussion cfg gen d rounds w))\<lparr>messages :=
         messages (session (run_discussion cfg gen d rounds w))
         @ yielded (run_discussion cfg gen (session (run_discussion cfg gen d rounds w)) rounds' w')\<rparr>"
    unfolding run_discussion_discussion_turns by (rule run_turns_session)
  have m1: "messages (session (run_discussion cfg gen d rounds w)) =
      messages d @ yielded (run_discussion cfg gen d rounds w)"
    by (subst s1) simp
  show ?thesis
    by (subst s2, subst m1, subst (2) s1) simp
qed

lemma first_run_facts:
  "outcome first_run = Inr ()" "length (yielded first_run) = 5"
  "session first_run = demo_session\<lparr>messages := messages demo_session @ yielded first_run\<rparr>"
proof -
  show "outcome first_run = Inr ()"
    unfolding first_run_def
    by (rule run_discussion_completes[OF never_fails_pad_backend demo_session_bound])
  show "length (yielded first_run) = 5"
    unfolding first_run_def by (rule first_run_length)
  show "session first_run = demo_session\<lparr>messages := messages demo_session @ yielded first_run\<rparr>"
    unfolding first_run_def run_discussion_discussion_turns by (rule run_turns_session)
qed

lemma second_run_length: "length (yielded second_run) = 5"
proof -
  have "clients (session first_run) = clients demo_session"
    by (subst first_run_facts(3)) simp
  with demo_session_bound
  have b: "\<forall>k \<in> set RESPONSE_ORDER_WITH_SYNTH. map_of (clients (session first_run)) k \<noteq> None"
    by simp
  have fin: "outcome (run_discussion default_config pad_backend (session first_run) (Some 1) (world first_run))
      = Inr ()"
    by (rule run_discussion_completes[OF never_fails_pad_backend b])
  have "(1::int) \<le> 1" by simp
  from message_count_aux[OF this fin] show ?thesis
    by (simp add: second_run_def default_config_def)
qed

section \<open>Session construction and the factory\<close>

lemma create_client_unsupported:
  "kind \<notin> set supported_kinds \<Longrightarrow> create_client cfg kind key model = Inl (unknown_provider kind)"
  by (simp add: create_client_def supported_kinds_def unknown_provider_def)

lemma create_client_supported:
  "kind \<in> set supported_kinds \<Longrightarrow> \<exists>c. create_client cfg kind key model = Inr c"
  by (auto simp: create_client_def supported_kinds_def)

lemma setup_mixed_step:
  assumes "provider_of a \<in> set supported_kinds"
  shows "\<exists>cs'. setup_mixed cfg ((pkey, a) # rest) cs = setup_mixed cfg rest cs'"
proof (cases a)
  case (NewFormat p m)
  let ?model = "case m of Some x \<Rightarrow> x | None \<Rightarrow> dict_get (MODELS cfg) p (str '''')"
  from assms NewFormat have "p \<in> set supported_kinds"
    by (simp add: provider_of_def)
  from create_client_supported[OF this, of cfg "get_api_key cfg p" ?model]
  obtain c where "create_client cfg p (get_api_key cfg p) ?model = Inr c" ..
  then show ?thesis
    by (intro exI[of _ "dict_set cs pkey c"]) (simp add: NewFormat)
next
  case (OldFormat p)
  from assms OldFormat have "p \<in> set supported_kinds"
    by (simp add: provider_of_def)
  from create_client_supported[OF this, of cfg "get_api_key cfg p" "dict_get (MODELS cfg) p (str '''')"]
  obtain c where "create_client cfg p (get_api_key cfg p) (dict_get (MODELS cfg) p (str '''')) = Inr c" ..
  then show ?thesis
    by (intro exI[of _ "dict_set cs pkey c"]) (simp add: OldFormat)
qed

lemma setup_mixed_unsupported:
  "\<exists>x \<in> set assignments. provider_of (snd x) \<notin> set supported_kinds \<Longrightarrow>
   \<exists>x \<in> set assignments. provider_of (snd x) \<notin> set supported_kinds \<and>
     setup_mixed cfg assignments cs = Inl (unknown_provider (provider_of (snd x)))"
proof (induction assignments arbitrary: cs)
  case Nil
  then show ?case by simp
next
  case (Cons x rest)
  obtain pkey a where x: "x = (pkey, a)" by (cases x)
  show ?case
  proof (cases "provider_of a \<in> set supported_kinds")
    case False
    then have "setup_mixed cfg (x # rest) cs = Inl (unknown_provider (provider_of a))"
      by (cases a) (simp_all add: x provider_of_def create_client_unsupported)
    with False x show ?thesis by auto
  next
    case True
    with Cons.prems x have "\<exists>x \<in> set rest. provider_of (snd x) \<notin> set supported_kinds"
      by auto
    from Cons.IH[OF this] have IH: "\<And>cs. \<exists>x \<in> set rest. provider_of (snd x) \<notin> set supported_kinds \<and>
        setup_mixed cfg rest cs = Inl (unknown_provider (provider_of (snd x)))" .
    from setup_mixed_step[OF True, of cfg pkey rest cs]
    obtain cs' where "setup_mixed cfg (x # rest) cs = setup_mixed cfg rest cs'"
      unfolding x ..
    with IH[of cs'] show ?thesis by auto
  qed
qed

lemma new_Discussion_unsupported:
  assumes "\<exists>kind \<in> set (declared_kinds cfg). kind \<notin> set supported_kinds"
  shows "\<exists>kind \<in> set (declared_kinds cfg). kind \<notin> set supported_kinds \<and>
           new_Discussion cfg topic = Inl (unknown_provider kind)"
proof (cases "LLM_PROVIDER cfg = str ''mixed''")
  case True
  with assms have "\<exists>x \<in> set (MIXED_ASSIGNMENTS cfg). provider_of (snd x) \<notin> set supported_kinds"
    by (simp add: declared_kinds_def)
  from setup_mixed_unsupported[OF this, of cfg "[]"]
  obtain x where "x \<in> set (MIXED_ASSIGNMENTS cfg)" "provider_of (snd x) \<notin> set supported_kinds"
    "setup_mixed cfg (MIXED_ASSIGNMENTS cfg) [] = Inl (unknown_provider (provider_of (snd x)))"
    by blast
  with True show ?thesis
    by (intro bexI[of _ "provider_of (snd x)"])
       (simp_all add: declared_kinds_def new_Discussion_def setup_clients_def)
next
  case False
  with assms have "LLM_PROVIDER cfg \<notin> set supported_kinds"
    by (simp add: declared_kinds_def)
  with False show ?thesis
    by (simp add: declared_kinds_def new_Discussion_def setup_clients_def create_client_unsupported)
qed

lemma declared_kinds_unknown:
  "declared_kinds unknown_provider_config = [str ''ollama'', str ''unknown-provider'', str ''ollama'']"
  by (simp add: declared_kinds_def unknown_provider_config_def default_config_def provider_of_def)

section \<open>The first binding, and topics that are empty once trimmed\<close>

lemma clients_demo_session:
  "clients demo_session =
     (str ''logical'', OllamaClient (str ''llama3.2'') (str ''http://localhost:11434'') 180)
     # [(str ''skeptical'', OllamaClient (str ''mistral'') (str ''http://localhost:11434'') 180),
        (str ''synthesizer'', OllamaClient (str ''phi3'') (str ''http://localhost:11434'') 180),
        (str ''creative'', GroqClient (str '''') (str ''llama-3.3-70b-versatile'')),
        (str ''practical'', GroqClient (str '''') (str ''qwen/qwen3-32b''))]"
  by (simp add: demo_session_eq)

lemma strip_all_space: "\<forall>c \<in> set s. isspace c \<Longrightarrow> strip s = []"
proof -
  assume "\<forall>c \<in> set s. isspace c"
  then have "dropWhile isspace s = []"
    by (induction s) simp_all
  then show ?thesis
    by (simp only: strip_def lstrip_def rstrip_def rev.simps dropWhile.simps)
qed

lemma main_empty_topic:
  "read_topic files stdin a = Inr (str '''') \<Longrightarrow> main cfg0 run files stdin a w = rejected w"
  by (simp add: main_def rejected_def Let_def)

lemma new_Discussion_empty:
  "new_Discussion default_config (str '''') =
     Inr (demo_session\<lparr>user_input := str ''''\<rparr>)"
  by (simp add: new_Discussion_default demo_session_eq)

lemma read_topic_blank: "read_topic blank_files [] blank_args = Inr (str '''')"
  by (simp add: read_topic_def blank_files_def blank_args_def truthy_def str_eq_iff str_Nil_iff
        strip_def lstrip_def rstrip_def isspace_def str_def)

section \<open>The layout of the transcript text\<close>

lemma split_on_no_sep: "sep \<notin> set s \<Longrightarrow> split_on sep s = [s]"
  by (induction s) auto

lemma split_on_append:
  "sep \<notin> set a \<Longrightarrow> split_on sep (a @ sep # rest) = a # split_on sep rest"
  by (induction a) auto

lemma split_on_sep: "split_on sep (sep # rest) = [] # split_on sep rest"
  by simp

lemma join_Cons: "join sep (x # xs) = x @ concat (map (\<lambda>y. sep @ y) xs)"
  by (induction xs arbitrary: x) auto

lemma str_newline: "str ''\<newline>'' = [10]"
  by (simp add: str_def)

lemma get_transcript_eq:
  "get_transcript d =
     str ''[User]'' @ 10 # user_input d @ 10 # concat (map (\<lambda>m. 10 # transcript_line m) (messages d))"
  by (simp add: get_transcript_def join_Cons str_newline str_def comp_def)

lemma transcript_line_eq:
  "transcript_line m =
     (91 # (emoji m @ str '' '' @ persona_name m) @ [93]) @ 10 # content m @ [10]"
  by (simp add: transcript_line_def str_def)

lemma split_on_not_Nil: "split_on sep s \<noteq> []"
  by (induction s) (auto split: list.splits)

lemma split_on_concat: "split_on sep (a @ sep # b) = split_on sep a @ split_on sep b"
proof (induction a)
  case Nil
  then show ?case by simp
next
  case (Cons c a)
  then show ?case
    using split_on_not_Nil[of sep a] by (cases "split_on sep a") auto
qed

lemma join_split_on: "join [sep] (split_on sep s) = s"
proof (induction s)
  case Nil
  then show ?case by simp
next
  case (Cons c s)
  show ?case
  proof (cases "c = sep")
    case True
    with Cons show ?thesis
      using split_on_not_Nil[of sep s] by (cases "split_on sep s") auto
  next
    case False
    obtain x xs where x: "split_on sep s = x # xs"
      using split_on_not_Nil[of sep s] by (cases "split_on sep s") auto
    with Cons have "join [sep] (x # xs) = s" by simp
    with False x show ?thesis
      by (cases xs) auto
  qed
qed

lemma bracketed_header: "bracketed (91 # h @ [93])"
  by (simp add: bracketed_def)

lemma unbracket_header: "unbracket (91 # h @ [93]) = h"
  by (simp add: unbracket_def butlast_append)

lemma read_blocks_body:
  "\<not> has_break ls \<Longrightarrow>
   read_blocks h body (ls @ [] # rest) = read_blocks h (body @ ls) ([] # rest)"
proof (induction ls arbitrary: body)
  case Nil
  then show ?case by simp
next
  case (Cons l ls)
  show ?case
  proof (cases ls)
    case Nil
    then show ?thesis
      by (simp add: bracketed_def)
  next
    case (Cons l' ls')
    from Cons.prems Cons have nb: "\<not> (l = [] \<and> bracketed l')" and nh: "\<not> has_break ls"
      by simp_all
    from nb Cons have "read_blocks h body ((l # ls) @ [] # rest) =
        read_blocks h (body @ [l]) (ls @ [] # rest)"
      by auto
    also have "\<dots> = read_blocks h ((body @ [l]) @ ls) ([] # rest)"
      by (rule Cons.IH[OF nh])
    finally show ?thesis by simp
  qed
qed

lemma read_blocks_end: "body \<noteq> [] \<Longrightarrow> read_blocks h body [[]] = Some [(h, join [10] body)]"
  by simp

lemma read_blocks_next:
  "body \<noteq> [] \<Longrightarrow>
   read_blocks h body ([] # (91 # h' @ [93]) # rest) =
     (case read_blocks h' [] rest of None \<Rightarrow> None | Some ps \<Rightarrow> Some ((h, join [10] body) # ps))"
  by (simp add: bracketed_header unbracket_header)

lemma lines_of_blocks:
  assumes "\<forall>m \<in> set ms. 10 \<notin> set (emoji m) \<and> 10 \<notin> set (persona_name m)"
  shows "split_on 10 (x @ 10 # concat (map (\<lambda>m. 10 # transcript_line m) ms)) =
           split_on 10 x
           @ concat (map (\<lambda>m. [] # (91 # (emoji m @ str '' '' @ persona_name m) @ [93])
                                  # split_on 10 (content m)) ms)
           @ [[]]"
  using assms
proof (induction ms arbitrary: x)
  case Nil
  then show ?case
    using split_on_concat[of 10 x "[]"] by simp
next
  case (Cons m ms)
  let ?h = "91 # (emoji m @ str '' '' @ persona_name m) @ [93]"
  let ?rest = "concat (map (\<lambda>m. 10 # transcript_line m) ms)"
  from Cons.prems have h: "10 \<notin> set ?h"
    by (simp add: str_def)
  have "x @ 10 # concat (map (\<lambda>m. 10 # transcript_line m) (m # ms)) =
          x @ 10 # ([] @ 10 # (?h @ 10 # (content m @ 10 # ?rest)))"
    by (simp add: transcript_line_eq)
  then have "split_on 10 (x @ 10 # concat (map (\<lambda>m. 10 # transcript_line m) (m # ms))) =
          split_on 10 x @ split_on 10 [] @ split_on 10 ?h @ split_on 10 (content m @ 10 # ?rest)"
    by (simp only: split_on_concat)
  also have "split_on 10 ?h = [?h]"
    by (rule split_on_no_sep[OF h])
  also have "split_on 10 (content m @ 10 # ?rest) =
      split_on 10 (content m)
      @ concat (map (\<lambda>m. [] # (91 # (emoji m @ str '' '' @ persona_name m) @ [93])
                                  # split_on 10 (content m)) ms)
      @ [[]]"
    by (rule Cons.IH) (use Cons.prems in simp)
  finally show ?case
    by simp
qed

lemma read_blocks_lines:
  assumes "\<forall>m \<in> set ms. \<not> embeds_header (content m)"
    and "\<not> embeds_header c"
  shows "read_blocks h [] (split_on 10 c
           @ concat (map (\<lambda>m. [] # (91 # (emoji m @ str '' '' @ persona_name m) @ [93])
                                  # split_on 10 (content m)) ms)
           @ [[]]) =
         Some ((h, c) # map (\<lambda>m. (emoji m @ str '' '' @ persona_name m, content m)) ms)"
  using assms
proof (induction ms arbitrary: h c)
  case Nil
  from Nil.prems have "\<not> has_break (split_on 10 c)"
    by (simp add: embeds_header_def)
  from read_blocks_body[OF this, of h "[]" "[]"] show ?case
    by (simp add: split_on_not_Nil join_split_on)
next
  case (Cons m ms)
  let ?H = "emoji m @ str '' '' @ persona_name m"
  let ?rest = "split_on 10 (content m)
           @ concat (map (\<lambda>m. [] # (91 # (emoji m @ str '' '' @ persona_name m) @ [93])
                                  # split_on 10 (content m)) ms)
           @ [[]]"
  from Cons.prems have nb: "\<not> has_break (split_on 10 c)"
    by (simp add: embeds_header_def)
  have IH: "read_blocks ?H [] ?rest =
      Some ((?H, content m) # map (\<lambda>m. (emoji m @ str '' '' @ persona_name m, content m)) ms)"
    by (rule Cons.IH) (use Cons.prems in simp_all)
  have "read_blocks h [] (split_on 10 c @ [] # (91 # ?H @ [93]) # ?rest) =
      read_blocks h ([] @ split_on 10 c) ([] # (91 # ?H @ [93]) # ?rest)"
    by (rule read_blocks_body[OF nb])
  also have "\<dots> = read_blocks h (split_on 10 c) ([] # (91 # ?H @ [93]) # ?rest)"
    by simp
  also have "\<dots> = (case read_blocks ?H [] ?rest of
                        None \<Rightarrow> None
                      | Some ps \<Rightarrow> Some ((h, join [10] (split_on 10 c)) # ps))"
    by (rule read_blocks_next) (rule split_on_not_Nil)
  also have "\<dots> = Some ((h, c) # (?H, content m)
      # map (\<lambda>m. (emoji m @ str '' '' @ persona_name m, content m)) ms)"
    by (simp only: IH option.case join_split_on)
  finally show ?case
    by simp
qed

lemma round_trip_lines:
  assumes "\<not> embeds_header (user_input d)"
    and "\<forall>m \<in> set (messages d).
           10 \<notin> set (emoji m) \<and> 10 \<notin> set (persona_name m) \<and> \<not> embeds_header (content m)"
  shows "parse_transcript (get_transcript d) =
           Some (map (\<lambda>m. (emoji m @ str '' '' @ persona_name m, content m)) (messages d))"
proof -
  have u: "10 \<notin> set (str ''[User]'')"
    by (simp add: str_def)
  from assms(2) have hd: "\<forall>m \<in> set (messages d). 10 \<notin> set (emoji m) \<and> 10 \<notin> set (persona_name m)"
    and ct: "\<forall>m \<in> set (messages d). \<not> embeds_header (content m)"
    by simp_all
  have "split_on 10 (get_transcript d) =
      str ''[User]'' # split_on 10 (user_input d @ 10 # concat (map (\<lambda>m. 10 # transcript_line m) (messages d)))"
    by (simp only: get_transcript_eq split_on_append[OF u])
  then have lines: "split_on 10 (get_transcript d) =
      str ''[User]'' # (split_on 10 (user_input d)
           @ concat (map (\<lambda>m. [] # (91 # (emoji m @ str '' '' @ persona_name m) @ [93])
                                  # split_on 10 (content m)) (messages d))
           @ [[]])"
    by (simp only: lines_of_blocks[OF hd])
  have rb: "read_blocks (str ''User'') [] (split_on 10 (user_input d)
           @ concat (map (\<lambda>m. [] # (91 # (emoji m @ str '' '' @ persona_name m) @ [93])
                                  # split_on 10 (content m)) (messages d))
           @ [[]]) =
      Some ((str ''User'', user_input d)
            # map (\<lambda>m. (emoji m @ str '' '' @ persona_name m, content m)) (messages d))"
    by (rule read_blocks_lines[OF ct assms(1)])
  show ?thesis
    unfolding parse_transcript_def lines
    by (simp only: list.case rb option.map list.sel) simp
qed

lemma generated_header_single_line:
  assumes "generate_response cfg gen d k rnd w = (Inr m, w')"
  shows "10 \<notin> set (emoji m) \<and> 10 \<notin> set (persona_name m)"
proof -
  from assms obtain p where p: "map_of PERSONAS k = Some p"
    and m: "emoji m = glyph p" "persona_name m = name p"
    by (auto simp: generate_response_def Let_def split: option.splits sum.splits prod.splits)
  from p have "p \<in> snd ` set PERSONAS"
    by (metis map_of_SomeD image_eqI snd_conv)
  then have "10 \<notin> set (glyph p) \<and> 10 \<notin> set (name p)"
    by (auto simp: PERSONAS_def str_def)
  with m show ?thesis by simp
qed

lemma paragraphs_clean:
  "\<not> embeds_header (user_input paragraphs_session)"
  "list_all (\<lambda>m. 10 \<notin> set (emoji m) \<and> 10 \<notin> set (persona_name m) \<and> \<not> embeds_header (content m))
     (messages paragraphs_session)"
  by (simp_all add: paragraphs_session_def logical_says_def creative_says_def embeds_header_def
        bracketed_def str_def)

lemma logical_first_turn:
  "generate_response default_config pad_backend demo_session (str ''logical'') 1 0 =
     (Inr (logical_says (replicate 2 120)), 1)"
  by (simp add: generate_response_pad_backend PERSONAS_def demo_session_eq logical_says_def
        del: replicate.simps)

section \<open>The claims\<close>

text \<open>
  C1, as the code has it. The loop skips the synthesizer only when the round is 1 and
  \<open>1 < rounds\<close>. So with two rounds or more no yielded message is the synthesizer's
  in round 1, in any run, also one a backend failure cuts short. With \<open>R = 1\<close> the
  guard \<open>round_num < rounds\<close> is false: a run that reaches its end yields five
  messages, one per persona of the order with the synthesizer, last the synthesizer's,
  all of round 1.
\<close>

theorem synthesizer_round_one:
  assumes "ENABLE_SYNTHESIZER cfg"
  shows "(2 \<le> R \<longrightarrow>
            (str ''synthesizer'', 1) \<notin> turn_of ` set (yielded (run_discussion cfg gen d (Some R) w))) \<and>
         (outcome (run_discussion cfg gen d (Some 1) w) = Inr () \<longrightarrow>
            map turn_of (yielded (run_discussion cfg gen d (Some 1) w)) =
              map (\<lambda>k. (k, 1)) RESPONSE_ORDER_WITH_SYNTH)"
proof (intro conjI impI)
  assume R: "2 \<le> R"
  then have "rounds_or (Some R) (MAX_ROUNDS cfg) = R"
    by (simp add: rounds_or_def)
  then have run: "run_discussion cfg gen d (Some R) w =
      run_turns cfg gen (turns R (if ENABLE_SYNTHESIZER cfg then RESPONSE_ORDER_WITH_SYNTH else RESPONSE_ORDER) [1..R]) d w"
    by (simp only: run_discussion_turns)
  from R have "1 < R" by simp
  then show "(str ''synthesizer'', 1) \<notin> turn_of ` set (yielded (run_discussion cfg gen d (Some R) w))"
    unfolding run using no_synth_turn_in_round_one turn_of_in_turns by fastforce
next
  assume fin: "outcome (run_discussion cfg gen d (Some 1) w) = Inr ()"
  have "rounds_or (Some 1) (MAX_ROUNDS cfg) = 1"
    by (simp add: rounds_or_def)
  with assms have run: "run_discussion cfg gen d (Some 1) w =
      run_turns cfg gen (turns 1 RESPONSE_ORDER_WITH_SYNTH [1..1]) d w"
    by (simp only: run_discussion_turns if_True)
  from fin show "map turn_of (yielded (run_discussion cfg gen d (Some 1) w)) =
              map (\<lambda>k. (k, 1)) RESPONSE_ORDER_WITH_SYNTH"
    unfolding run by (simp only: run_turns_done turns_one_round_with_synth)
qed

theorem synthesizer_round_one_witness:
  "ENABLE_SYNTHESIZER default_config \<and> (2::int) \<le> 2 \<and>
   outcome (run_discussion default_config pad_backend demo_session (Some 1) 0) = Inr () \<and>
   (str ''synthesizer'', 1) \<notin>
      turn_of ` set (yielded (run_discussion default_config pad_backend demo_session (Some 2) 0)) \<and>
   map turn_of (yielded (run_discussion default_config pad_backend demo_session (Some 1) 0)) =
     [(str ''logical'', 1), (str ''creative'', 1), (str ''skeptical'', 1), (str ''practical'', 1),
      (str ''synthesizer'', 1)]"
proof -
  have en: "ENABLE_SYNTHESIZER default_config"
    by (simp add: default_config_def)
  have fin: "outcome (run_discussion default_config pad_backend demo_session (Some 1) 0) = Inr ()"
    by (rule run_discussion_completes[OF never_fails_pad_backend demo_session_bound])
  from synthesizer_round_one[OF en, of 2 pad_backend demo_session 0] en fin show ?thesis
    by (simp add: RESPONSE_ORDER_WITH_SYNTH_def)
qed

text \<open>
  C1 as stated fails at \<open>R = 1\<close>: the run of the default configuration on the
  scenario's topic yields five messages, not four, and the fifth is the synthesizer's,
  tagged round 1.
\<close>

theorem synthesizer_round_one_counterexample:
  "length (yielded (run_discussion default_config pad_backend demo_session (Some 1) 0)) = 5 \<and>
   persona_key (yielded (run_discussion default_config pad_backend demo_session (Some 1) 0) ! 4)
     = str ''synthesizer'' \<and>
   round_num (yielded (run_discussion default_config pad_backend demo_session (Some 1) 0) ! 4) = 1"
proof -
  let ?ys = "yielded (run_discussion default_config pad_backend demo_session (Some 1) 0)"
  have fin: "outcome (run_discussion default_config pad_backend demo_session (Some 1) 0) = Inr ()"
    by (rule run_discussion_completes[OF never_fails_pad_backend demo_session_bound])
  have "run_discussion default_config pad_backend demo_session (Some 1) 0 =
      run_turns default_config pad_backend (turns 1 RESPONSE_ORDER_WITH_SYNTH [1..1]) demo_session 0"
    by (simp add: run_discussion_turns rounds_or_def default_config_def)
  with fin have ts: "map turn_of ?ys = map (\<lambda>k. (k, 1)) RESPONSE_ORDER_WITH_SYNTH"
    by (simp only: run_turns_done turns_one_round_with_synth)
  then have len: "length ?ys = 5"
    by (metis length_map RESPONSE_ORDER_WITH_SYNTH_def length_Cons list.size(3) eval_nat_numeral(2,3) numeral_1_eq_Suc_0 One_nat_def semiring_norm(26,27))
  from ts have "map turn_of ?ys ! 4 = (str ''synthesizer'', 1)"
    by (simp add: RESPONSE_ORDER_WITH_SYNTH_def)
  with len have "turn_of (?ys ! 4) = (str ''synthesizer'', 1)"
    by simp
  with len show ?thesis
    by (simp add: turn_of_def)
qed

text \<open>
  C2. For every round count \<open>R \<ge> 1\<close>, a run that reaches its end has yielded
  \<open>R * k\<close> messages, less one when the synthesizer was skipped in round 1 (which the
  loop does exactly when \<open>1 < R\<close>), with the synthesizer enabled, where \<open>k = 5\<close>
  is the length of the order with the synthesizer; and \<open>R * (k - 1)\<close> messages with
  the synthesizer disabled.
\<close>

theorem message_count:
  assumes "1 \<le> R" and "outcome (run_discussion cfg gen d (Some R) w) = Inr ()"
  shows "int (length (yielded (run_discussion cfg gen d (Some R) w))) =
           (if ENABLE_SYNTHESIZER cfg
            then R * int (length RESPONSE_ORDER_WITH_SYNTH) - (if skips (str ''synthesizer'') 1 R then 1 else 0)
            else R * int (length RESPONSE_ORDER))"
  using message_count_aux[OF assms]
  by (simp add: skips_def RESPONSE_ORDER_WITH_SYNTH_def RESPONSE_ORDER_def)

theorem message_count_witness:
  "(1::int) \<le> 2 \<and> outcome (run_discussion default_config pad_backend demo_session (Some 2) 0) = Inr ()
   \<and> int (length (yielded (run_discussion default_config pad_backend demo_session (Some 2) 0))) = 9"
proof -
  have fin: "outcome (run_discussion default_config pad_backend demo_session (Some 2) 0) = Inr ()"
    by (rule run_discussion_completes[OF never_fails_pad_backend demo_session_bound])
  have "(1::int) \<le> 2" by simp
  from message_count[OF this fin] fin show ?thesis
    by (simp add: default_config_def RESPONSE_ORDER_WITH_SYNTH_def skips_def)
qed

text \<open>
  C3. For a speaker \<open>S\<close> of the registry and any session, the context is the
  topic entry, then one entry per transcript message in transcript order, tagged
  \<open>assistant\<close> when the message is \<open>S\<close>'s own and \<open>user\<close> otherwise and carrying
  the author's display name, then the instruction entry naming \<open>S\<close>'s display name:
  two entries more than the transcript has messages.
\<close>

theorem context_shape:
  assumes "map_of PERSONAS S = Some p"
  shows "build_chat_history d S =
           Inr (\<lparr>role = str ''user'', entry_content = str ''[User] '' @ user_input d\<rparr>
                # map (\<lambda>m. \<lparr>role = (if persona_key m = S then str ''assistant'' else str ''user''),
                               entry_content = str ''['' @ persona_name m @ str ''] '' @ content m\<rparr>)
                    (messages d)
                @ [\<lparr>role = str ''user'',
                     entry_content = str ''Now respond naturally as yourself ('' @ name p
                       @ str '') to this ongoing discussion. Keep it conversational and chat-like.''\<rparr>])
         \<and> length (projr (build_chat_history d S)) = length (messages d) + 2"
  using assms by (simp add: build_chat_history_eq history_entry_def)

theorem context_shape_witness:
  "map_of PERSONAS (str ''logical'') =
     Some \<lparr>name = str ''Logical Thinker'', glyph = [0x1F9E0], system_prompt = logical_system_prompt\<rparr> \<and>
   build_chat_history
     (demo_session\<lparr>messages :=
        [\<lparr>persona_key = str ''logical'', persona_name = str ''Logical Thinker'', emoji = [0x1F9E0],
          content = str ''yes'', round_num = 1\<rparr>,
         \<lparr>persona_key = str ''creative'', persona_name = str ''Creative Thinker'', emoji = [0x1F3A8],
          content = str ''no'', round_num = 1\<rparr>]\<rparr>)
     (str ''logical'') =
     Inr [\<lparr>role = str ''user'', entry_content = str ''[User] Should companies adopt a 4-day work week?''\<rparr>,
          \<lparr>role = str ''assistant'', entry_content = str ''[Logical Thinker] yes''\<rparr>,
          \<lparr>role = str ''user'', entry_content = str ''[Creative Thinker] no''\<rparr>,
          \<lparr>role = str ''user'',
            entry_content = str ''Now respond naturally as yourself (Logical Thinker) to this ongoing discussion. Keep it conversational and chat-like.''\<rparr>]"
  using context_shape[OF PERSONAS_logical,
      of "demo_session\<lparr>messages :=
        [\<lparr>persona_key = str ''logical'', persona_name = str ''Logical Thinker'', emoji = [0x1F9E0],
          content = str ''yes'', round_num = 1\<rparr>,
         \<lparr>persona_key = str ''creative'', persona_name = str ''Creative Thinker'', emoji = [0x1F3A8],
          content = str ''no'', round_num = 1\<rparr>]\<rparr>"]
    PERSONAS_logical
  by (simp add: demo_session_eq demo_topic_def str_eq_iff str_def)

text \<open>
  C10. A round count of \<open>0\<close>, like \<open>None\<close>, is replaced by \<open>MAX_ROUNDS\<close>: the
  run is the run of \<open>MAX_ROUNDS\<close> rounds. When \<open>MAX_ROUNDS\<close> is at least 1 and the
  run reaches its end, it has yielded the messages of that many full rounds, and not none.
\<close>

theorem zero_rounds_default:
  "run_discussion cfg gen d (Some 0) w = run_discussion cfg gen d (Some (MAX_ROUNDS cfg)) w \<and>
   run_discussion cfg gen d None w = run_discussion cfg gen d (Some (MAX_ROUNDS cfg)) w \<and>
   (1 \<le> MAX_ROUNDS cfg \<and> outcome (run_discussion cfg gen d (Some 0) w) = Inr () \<longrightarrow>
      int (length (yielded (run_discussion cfg gen d (Some 0) w))) =
        (if ENABLE_SYNTHESIZER cfg
         then MAX_ROUNDS cfg * 5 - (if 1 < MAX_ROUNDS cfg then 1 else 0)
         else MAX_ROUNDS cfg * 4) \<and>
      yielded (run_discussion cfg gen d (Some 0) w) \<noteq> [])"
proof -
  have eq0: "run_discussion cfg gen d (Some 0) w = run_discussion cfg gen d (Some (MAX_ROUNDS cfg)) w"
    by (simp add: run_discussion_def rounds_or_def)
  have eqN: "run_discussion cfg gen d None w = run_discussion cfg gen d (Some (MAX_ROUNDS cfg)) w"
    by (simp add: run_discussion_def rounds_or_def)
  have "int (length (yielded (run_discussion cfg gen d (Some 0) w))) =
          (if ENABLE_SYNTHESIZER cfg
           then MAX_ROUNDS cfg * 5 - (if 1 < MAX_ROUNDS cfg then 1 else 0)
           else MAX_ROUNDS cfg * 4) \<and>
        yielded (run_discussion cfg gen d (Some 0) w) \<noteq> []"
    if pos: "1 \<le> MAX_ROUNDS cfg" and fin0: "outcome (run_discussion cfg gen d (Some 0) w) = Inr ()"
  proof -
    from fin0 have fin: "outcome (run_discussion cfg gen d (Some (MAX_ROUNDS cfg)) w) = Inr ()"
      by (simp only: eq0)
    have cnt: "int (length (yielded (run_discussion cfg gen d (Some 0) w))) =
             (if ENABLE_SYNTHESIZER cfg
              then MAX_ROUNDS cfg * 5 - (if 1 < MAX_ROUNDS cfg then 1 else 0)
              else MAX_ROUNDS cfg * 4)"
      unfolding eq0 using message_count_aux[OF pos fin] .
    with pos have "0 < int (length (yielded (run_discussion cfg gen d (Some 0) w)))"
      by (simp split: if_splits)
    then have "yielded (run_discussion cfg gen d (Some 0) w) \<noteq> []"
      by auto
    with cnt show ?thesis by blast
  qed
  with eq0 eqN show ?thesis by blast
qed

theorem zero_rounds_default_witness:
  "(1::int) \<le> MAX_ROUNDS default_config \<and>
   outcome (run_discussion default_config pad_backend demo_session (Some 0) 0) = Inr () \<and>
   run_discussion default_config pad_backend demo_session (Some 0) 0 =
     run_discussion default_config pad_backend demo_session (Some 3) 0 \<and>
   run_discussion default_config pad_backend demo_session None 0 =
     run_discussion default_config pad_backend demo_session (Some 3) 0 \<and>
   int (length (yielded (run_discussion default_config pad_backend demo_session (Some 0) 0))) = 14"
proof -
  have fin: "outcome (run_discussion default_config pad_backend demo_session (Some 0) 0) = Inr ()"
    by (rule run_discussion_completes[OF never_fails_pad_backend demo_session_bound])
  have cfg: "MAX_ROUNDS default_config = 3" "ENABLE_SYNTHESIZER default_config"
    by (simp_all add: default_config_def)
  have pos: "(1::int) \<le> MAX_ROUNDS default_config"
    by (simp add: cfg)
  note th = zero_rounds_default[of default_config pad_backend demo_session 0]
  from th have a: "run_discussion default_config pad_backend demo_session (Some 0) 0 =
      run_discussion default_config pad_backend demo_session (Some (MAX_ROUNDS default_config)) 0"
    by blast
  from th have b: "run_discussion default_config pad_backend demo_session None 0 =
      run_discussion default_config pad_backend demo_session (Some (MAX_ROUNDS default_config)) 0"
    by blast
  from th pos fin
  have "int (length (yielded (run_discussion default_config pad_backend demo_session (Some 0) 0))) =
      (if ENABLE_SYNTHESIZER default_config
       then MAX_ROUNDS default_config * 5 - (if 1 < MAX_ROUNDS default_config then 1 else 0)
       else MAX_ROUNDS default_config * 4)"
    by blast
  then have c: "int (length (yielded (run_discussion default_config pad_backend demo_session (Some 0) 0))) = 14"
    by (simp add: cfg)
  from pos fin a[unfolded cfg(1)] b[unfolded cfg(1)] c show ?thesis
    by (intro conjI)
qed

text \<open>
  C9. When the turns before turn \<open>n\<close> of a run have succeeded and the backend call of
  turn \<open>n\<close> raises \<open>e\<close>, the run ends there with \<open>e\<close>: it has yielded the
  messages of the turns before, in order, the session is the session before the run
  with exactly these messages appended, and the world is the one the failing call left,
  so no later turn was tried. Conversely, a run that ends with an exception \<open>e\<close> has a
  turn \<open>n\<close> of this kind: the \<open>n\<close> turns before it succeeded, their messages are what
  was yielded and appended, and \<open>e\<close> is what \<open>_generate_response\<close> raised at turn
  \<open>n\<close>.
\<close>

theorem failure_halts_run:
  "(n < length (discussion_turns cfg rounds) \<and>
    discussion_turns cfg rounds ! n = (k, rnd) \<and>
    outcome (run_turns cfg gen (take n (discussion_turns cfg rounds)) d w) = Inr () \<and>
    map_of PERSONAS k = Some p \<and>
    map_of (clients d) k = Some cl \<and>
    build_chat_history (session (run_turns cfg gen (take n (discussion_turns cfg rounds)) d w)) k = Inr h \<and>
    gen cl (system_prompt p) h (dict_get (PERSONA_TEMPERATURES cfg) k (5 / 10))
        (world (run_turns cfg gen (take n (discussion_turns cfg rounds)) d w)) = (Inl e, w')
    \<longrightarrow>
      run_discussion cfg gen d rounds w =
        \<lparr>yielded = yielded (run_turns cfg gen (take n (discussion_turns cfg rounds)) d w),
         outcome = Inl e,
         session = d\<lparr>messages := messages d
            @ yielded (run_turns cfg gen (take n (discussion_turns cfg rounds)) d w)\<rparr>,
         world = w'\<rparr> \<and>
      map turn_of (yielded (run_discussion cfg gen d rounds w)) = take n (discussion_turns cfg rounds)) \<and>
   (outcome (run_discussion cfg gen d rounds w) = Inl e \<longrightarrow>
      (\<exists>n w0.
         n < length (discussion_turns cfg rounds) \<and>
         length (yielded (run_discussion cfg gen d rounds w)) = n \<and>
         map turn_of (yielded (run_discussion cfg gen d rounds w)) = take n (discussion_turns cfg rounds) \<and>
         session (run_discussion cfg gen d rounds w) =
           d\<lparr>messages := messages d @ yielded (run_discussion cfg gen d rounds w)\<rparr> \<and>
         run_turns cfg gen (take n (discussion_turns cfg rounds)) d w =
           \<lparr>yielded = yielded (run_discussion cfg gen d rounds w), outcome = Inr (),
            session = session (run_discussion cfg gen d rounds w), world = w0\<rparr> \<and>
         generate_response cfg gen (session (run_discussion cfg gen d rounds w))
             (fst (discussion_turns cfg rounds ! n)) (snd (discussion_turns cfg rounds ! n)) w0
           = (Inl e, world (run_discussion cfg gen d rounds w))))"
proof (intro conjI impI)
  let ?ts = "discussion_turns cfg rounds"
  let ?r0 = "run_turns cfg gen (take n ?ts) d w"
  assume a: "n < length ?ts \<and> ?ts ! n = (k, rnd) \<and> outcome ?r0 = Inr () \<and>
    map_of PERSONAS k = Some p \<and> map_of (clients d) k = Some cl \<and>
    build_chat_history (session ?r0) k = Inr h \<and>
    gen cl (system_prompt p) h (dict_get (PERSONA_TEMPERATURES cfg) k (5 / 10)) (world ?r0) = (Inl e, w')"
  from a have n: "n < length ?ts" and t: "?ts ! n = (k, rnd)" and pre: "outcome ?r0 = Inr ()"
    and p: "map_of PERSONAS k = Some p" and c: "map_of (clients d) k = Some cl"
    and h: "build_chat_history (session ?r0) k = Inr h"
    and g: "gen cl (system_prompt p) h (dict_get (PERSONA_TEMPERATURES cfg) k (5 / 10)) (world ?r0) = (Inl e, w')"
    by blast+
  have ses: "session ?r0 = d\<lparr>messages := messages d @ yielded ?r0\<rparr>"
    by (rule run_turns_session)
  have "clients (session ?r0) = clients d"
    by (subst ses) simp
  with c have cl: "map_of (clients (session ?r0)) k = Some cl"
    by simp
  have fail: "generate_response cfg gen (session ?r0) k rnd (world ?r0) = (Inl e, w')"
    by (rule generate_response_backend_fails[where gen = gen, OF p cl h g])
  from run_turns_fails_at[OF n t pre fail]
  have "run_turns cfg gen ?ts d w =
      \<lparr>yielded = yielded ?r0, outcome = Inl e, session = session ?r0, world = w'\<rparr>" .
  then have run: "run_discussion cfg gen d rounds w =
      \<lparr>yielded = yielded ?r0, outcome = Inl e, session = session ?r0, world = w'\<rparr>"
    by (simp only: run_discussion_discussion_turns)
  then show "run_discussion cfg gen d rounds w =
      \<lparr>yielded = yielded ?r0, outcome = Inl e,
       session = d\<lparr>messages := messages d @ yielded ?r0\<rparr>, world = w'\<rparr>"
    using ses by simp
  from pre have "map turn_of (yielded ?r0) = take n ?ts"
    by (rule run_turns_done)
  with run show "map turn_of (yielded (run_discussion cfg gen d rounds w)) = take n ?ts"
    by simp
next
  let ?ts = "discussion_turns cfg rounds"
  let ?r = "run_turns cfg gen ?ts d w"
  assume failed: "outcome (run_discussion cfg gen d rounds w) = Inl e"
  have run: "run_discussion cfg gen d rounds w = ?r"
    by (rule run_discussion_discussion_turns)
  from failed have "outcome ?r = Inl e"
    by (simp only: run)
  from run_turns_stopped[OF this] obtain n w0 where n: "n < length ?ts"
    and pre: "run_turns cfg gen (take n ?ts) d w =
       \<lparr>yielded = yielded ?r, outcome = Inr (), session = session ?r, world = w0\<rparr>"
    and fail: "generate_response cfg gen (session ?r) (fst (?ts ! n)) (snd (?ts ! n)) w0 = (Inl e, world ?r)"
    by blast
  from pre have "outcome (run_turns cfg gen (take n ?ts) d w) = Inr ()"
    by simp
  then have "map turn_of (yielded (run_turns cfg gen (take n ?ts) d w)) = take n ?ts"
    by (rule run_turns_done)
  with pre have ys: "map turn_of (yielded ?r) = take n ?ts"
    by simp
  then have "length (map turn_of (yielded ?r)) = length (take n ?ts)"
    by (simp only:)
  with n have len: "length (yielded ?r) = n"
    by simp
  have ses: "session ?r = d\<lparr>messages := messages d @ yielded ?r\<rparr>"
    by (rule run_turns_session)
  from n len ys ses pre fail show "\<exists>n w0.
         n < length ?ts \<and>
         length (yielded (run_discussion cfg gen d rounds w)) = n \<and>
         map turn_of (yielded (run_discussion cfg gen d rounds w)) = take n ?ts \<and>
         session (run_discussion cfg gen d rounds w) =
           d\<lparr>messages := messages d @ yielded (run_discussion cfg gen d rounds w)\<rparr> \<and>
         run_turns cfg gen (take n ?ts) d w =
           \<lparr>yielded = yielded (run_discussion cfg gen d rounds w), outcome = Inr (),
            session = session (run_discussion cfg gen d rounds w), world = w0\<rparr> \<and>
         generate_response cfg gen (session (run_discussion cfg gen d rounds w))
             (fst (?ts ! n)) (snd (?ts ! n)) w0
           = (Inl e, world (run_discussion cfg gen d rounds w))"
    unfolding run by blast
qed

theorem failure_halts_run_witness:
  "2 < length (discussion_turns default_config (Some 1)) \<and>
   discussion_turns default_config (Some 1) ! 2 = (str ''skeptical'', 1) \<and>
   outcome two_turns = Inr () \<and>
   map_of PERSONAS (str ''skeptical'') = Some skeptical_persona \<and>
   map_of (clients demo_session) (str ''skeptical'') = Some skeptical_client \<and>
   build_chat_history (session two_turns) (str ''skeptical'') =
     Inr (projr (build_chat_history (session two_turns) (str ''skeptical''))) \<and>
   failing_backend 2 skeptical_client (system_prompt skeptical_persona)
      (projr (build_chat_history (session two_turns) (str ''skeptical'')))
      (dict_get (PERSONA_TEMPERATURES default_config) (str ''skeptical'') (5 / 10))
      (world two_turns) = (Inl (BackendError (str ''timed out'')), 3) \<and>
   run_discussion default_config (failing_backend 2) demo_session (Some 1) 0 =
     \<lparr>yielded = yielded two_turns, outcome = Inl (BackendError (str ''timed out'')),
      session = demo_session\<lparr>messages := messages demo_session @ yielded two_turns\<rparr>, world = 3\<rparr> \<and>
   map turn_of (yielded (run_discussion default_config (failing_backend 2) demo_session (Some 1) 0)) =
     [(str ''logical'', 1), (str ''creative'', 1)] \<and>
   outcome (run_discussion default_config (failing_backend 2) demo_session (Some 1) 0) =
     Inl (BackendError (str ''timed out'')) \<and>
   (\<exists>n w0.
      n < length (discussion_turns default_config (Some 1)) \<and>
      length (yielded (run_discussion default_config (failing_backend 2) demo_session (Some 1) 0)) = n \<and>
      map turn_of (yielded (run_discussion default_config (failing_backend 2) demo_session (Some 1) 0)) =
        take n (discussion_turns default_config (Some 1)) \<and>
      session (run_discussion default_config (failing_backend 2) demo_session (Some 1) 0) =
        demo_session\<lparr>messages := messages demo_session
           @ yielded (run_discussion default_config (failing_backend 2) demo_session (Some 1) 0)\<rparr> \<and>
      run_turns default_config (failing_backend 2) (take n (discussion_turns default_config (Some 1)))
          demo_session 0 =
        \<lparr>yielded = yielded (run_discussion default_config (failing_backend 2) demo_session (Some 1) 0),
         outcome = Inr (),
         session = session (run_discussion default_config (failing_backend 2) demo_session (Some 1) 0),
         world = w0\<rparr> \<and>
      generate_response default_config (failing_backend 2)
          (session (run_discussion default_config (failing_backend 2) demo_session (Some 1) 0))
          (fst (discussion_turns default_config (Some 1) ! n))
          (snd (discussion_turns default_config (Some 1) ! n)) w0
        = (Inl (BackendError (str ''timed out'')),
           world (run_discussion default_config (failing_backend 2) demo_session (Some 1) 0)))"
proof -
  have f1: "2 < length (discussion_turns default_config (Some 1))"
    and f2: "discussion_turns default_config (Some 1) ! 2 = (str ''skeptical'', 1)"
    by (simp_all add: discussion_turns_default_one)
  note th = failure_halts_run[where n = 2 and cfg = default_config and rounds = "Some 1"
      and k = "str ''skeptical''" and rnd = 1 and gen = "failing_backend 2" and d = demo_session
      and w = 0 and p = skeptical_persona and cl = skeptical_client
      and h = "projr (build_chat_history (session two_turns) (str ''skeptical''))"
      and e = "BackendError (str ''timed out'')" and w' = 3, folded two_turns_def]
  from th f1 f2 two_turns_facts(1) PERSONAS_skeptical clients_skeptical two_turns_context third_request_fails
  have run: "run_discussion default_config (failing_backend 2) demo_session (Some 1) 0 =
     \<lparr>yielded = yielded two_turns, outcome = Inl (BackendError (str ''timed out'')),
      session = demo_session\<lparr>messages := messages demo_session @ yielded two_turns\<rparr>, world = 3\<rparr>"
    by blast
  then have out: "outcome (run_discussion default_config (failing_backend 2) demo_session (Some 1) 0) =
     Inl (BackendError (str ''timed out''))"
    by simp
  from run have ys: "map turn_of (yielded (run_discussion default_config (failing_backend 2) demo_session (Some 1) 0)) =
     [(str ''logical'', 1), (str ''creative'', 1)]"
    by (simp add: two_turns_facts(3))
  from th out have ex: "\<exists>n w0.
      n < length (discussion_turns default_config (Some 1)) \<and>
      length (yielded (run_discussion default_config (failing_backend 2) demo_session (Some 1) 0)) = n \<and>
      map turn_of (yielded (run_discussion default_config (failing_backend 2) demo_session (Some 1) 0)) =
        take n (discussion_turns default_config (Some 1)) \<and>
      session (run_discussion default_config (failing_backend 2) demo_session (Some 1) 0) =
        demo_session\<lparr>messages := messages demo_session
           @ yielded (run_discussion default_config (failing_backend 2) demo_session (Some 1) 0)\<rparr> \<and>
      run_turns default_config (failing_backend 2) (take n (discussion_turns default_config (Some 1)))
          demo_session 0 =
        \<lparr>yielded = yielded (run_discussion default_config (failing_backend 2) demo_session (Some 1) 0),
         outcome = Inr (),
         session = session (run_discussion default_config (failing_backend 2) demo_session (Some 1) 0),
         world = w0\<rparr> \<and>
      generate_response default_config (failing_backend 2)
          (session (run_discussion default_config (failing_backend 2) demo_session (Some 1) 0))
          (fst (discussion_turns default_config (Some 1) ! n))
          (snd (discussion_turns default_config (Some 1) ! n)) w0
        = (Inl (BackendError (str ''timed out'')),
           world (run_discussion default_config (failing_backend 2) demo_session (Some 1) 0))"
    by blast
  from f1 f2 two_turns_facts(1) PERSONAS_skeptical clients_skeptical two_turns_context third_request_fails
    run ys out ex
  show ?thesis
    by (intro conjI)
qed

text \<open>
  C4, as the code has it. \<open>run_discussion\<close> never empties \<open>self.messages\<close>, so a
  second invocation on the same session goes on with the transcript of the first. The
  session afterwards is the original one with the messages of the first run and then
  those of the second appended. Every context the second run hands to the backend, as
  the recording backend shows them, is the context built from the transcript at that
  turn, which holds the messages of the first run: for the turn of the \<open>i\<close>-th
  message of the second run it is built from the original messages, those of the
  first run and the first \<open>i\<close> of the second, so the entries of the first run's
  messages stand in it after the topic entry and the entries of the original messages.
  Only a newly constructed session has an empty transcript.
\<close>

theorem rerun_accumulates:
  "(let r1 = run_discussion cfg gen d rounds w;
        r2 = run_discussion cfg gen (session r1) rounds' w';
        q2 = run_discussion cfg (recording gen) (session r1) rounds' (w', [])
    in session r2 = d\<lparr>messages := messages d @ yielded r1 @ yielded r2\<rparr> \<and>
       yielded q2 = yielded r2 \<and> outcome q2 = outcome r2 \<and> fst (world q2) = world r2 \<and>
       length (yielded r2) \<le> length (snd (world q2)) \<and>
       (\<forall>i < length (yielded r2).
          build_chat_history (d\<lparr>messages := messages d @ yielded r1 @ take i (yielded r2)\<rparr>)
            (persona_key (yielded r2 ! i)) = Inr (snd (world q2) ! i) \<and>
          take (length (yielded r1)) (drop (Suc (length (messages d))) (snd (world q2) ! i)) =
            map (history_entry (persona_key (yielded r2 ! i))) (yielded r1))) \<and>
   (new_Discussion cfg topic = Inr d0 \<longrightarrow> messages d0 = [] \<and> user_input d0 = topic)"
  unfolding Let_def
  using rerun_session[of cfg gen d rounds w rounds' w']
    rerun_contexts[of cfg gen d rounds w rounds' w'] new_Discussion_fresh[of cfg topic d0]
  by (intro conjI impI) blast+

theorem rerun_accumulates_witness:
  "new_Discussion default_config demo_topic = Inr demo_session \<and>
   messages demo_session = [] \<and> user_input demo_session = demo_topic \<and>
   session second_run =
     demo_session\<lparr>messages := messages demo_session @ yielded first_run @ yielded second_run\<rparr> \<and>
   yielded second_run_recorded = yielded second_run \<and>
   length (yielded first_run) = 5 \<and>
   (0::nat) < length (yielded second_run) \<and>
   build_chat_history
     (demo_session\<lparr>messages := messages demo_session @ yielded first_run @ take 0 (yielded second_run)\<rparr>)
     (persona_key (yielded second_run ! 0)) = Inr (snd (world second_run_recorded) ! 0) \<and>
   take (length (yielded first_run))
     (drop (Suc (length (messages demo_session))) (snd (world second_run_recorded) ! 0)) =
     map (history_entry (persona_key (yielded second_run ! 0))) (yielded first_run)"
proof -
  have nd: "new_Discussion default_config demo_topic = Inr demo_session"
    by (simp add: new_Discussion_default demo_session_eq)
  note th = rerun_accumulates[of default_config pad_backend demo_session "Some 1" 0 "Some 1"
      "world first_run" demo_topic demo_session,
      unfolded Let_def, folded first_run_def, folded second_run_def second_run_recorded_def]
  from th nd have fresh: "messages demo_session = []" "user_input demo_session = demo_topic"
    by blast+
  from th have ses: "session second_run =
     demo_session\<lparr>messages := messages demo_session @ yielded first_run @ yielded second_run\<rparr>"
    and rec: "yielded second_run_recorded = yielded second_run"
    by blast+
  have pos: "(0::nat) < length (yielded second_run)"
    by (simp add: second_run_length)
  from th pos have ctx: "build_chat_history
     (demo_session\<lparr>messages := messages demo_session @ yielded first_run @ take 0 (yielded second_run)\<rparr>)
     (persona_key (yielded second_run ! 0)) = Inr (snd (world second_run_recorded) ! 0)"
    and inc: "take (length (yielded first_run))
     (drop (Suc (length (messages demo_session))) (snd (world second_run_recorded) ! 0)) =
     map (history_entry (persona_key (yielded second_run ! 0))) (yielded first_run)"
    by blast+
  from nd fresh ses rec first_run_facts(2) pos ctx inc show ?thesis
    by (intro conjI)
qed

text \<open>
  C4 as stated fails: with a backend whose answer is as long as the context it is given,
  the messages yielded by a second run on the same session are not those yielded by the
  first run on the fresh session (the first answer has 7 characters instead of 2).
\<close>

theorem rerun_accumulates_counterexample:
  "yielded (run_discussion default_config pad_backend
              (session (run_discussion default_config pad_backend demo_session (Some 1) 0)) (Some 1)
              (world (run_discussion default_config pad_backend demo_session (Some 1) 0)))
     \<noteq> yielded (run_discussion default_config pad_backend demo_session (Some 1) 0)"
proof -
  let ?r1 = "run_discussion default_config pad_backend demo_session (Some 1) 0"
  let ?ts = "[(str ''creative'', 1::int), (str ''skeptical'', 1), (str ''practical'', 1),
      (str ''synthesizer'', 1)]"
  have ts: "discussion_turns default_config (Some 1) = (str ''logical'', 1) # ?ts"
    by (simp add: discussion_turns_default_one)
  have s1: "session ?r1 = demo_session\<lparr>messages := messages demo_session @ yielded ?r1\<rparr>"
    unfolding run_discussion_discussion_turns by (rule run_turns_session)
  have cl: "map_of (clients demo_session) (str ''logical'') =
      Some (OllamaClient (str ''llama3.2'') (str ''http://localhost:11434'') 180)"
    by (simp add: demo_session_eq)
  have cl1: "map_of (clients (session ?r1)) (str ''logical'') =
      Some (OllamaClient (str ''llama3.2'') (str ''http://localhost:11434'') 180)"
    by (subst s1) (simp add: cl)
  have len1: "length (messages (session ?r1)) = 5"
    by (subst s1) (simp add: first_run_length messages_demo_session)
  have e1: "yielded ?r1 =
      yielded (run_turns default_config pad_backend ((str ''logical'', 1) # ?ts) demo_session 0)"
    by (simp only: run_discussion_discussion_turns ts)
  have e2: "yielded (run_discussion default_config pad_backend (session ?r1) (Some 1) (world ?r1)) =
      yielded (run_turns default_config pad_backend ((str ''logical'', 1) # ?ts) (session ?r1) (world ?r1))"
    by (simp only: run_discussion_discussion_turns[of _ _ "session ?r1"] ts)
  have fresh: "hd (map content (yielded ?r1)) = replicate (length (messages demo_session) + 2) 120"
    by (subst e1) (rule conjunct2[OF first_content_pad[OF PERSONAS_logical cl]])
  have again: "hd (map content (yielded (run_discussion default_config pad_backend (session ?r1) (Some 1) (world ?r1))))
      = replicate (length (messages (session ?r1)) + 2) 120"
    by (subst e2) (rule conjunct2[OF first_content_pad[OF PERSONAS_logical cl1]])
  show ?thesis
  proof
    assume "yielded (run_discussion default_config pad_backend (session ?r1) (Some 1) (world ?r1)) = yielded ?r1"
    then have "hd (map content (yielded (run_discussion default_config pad_backend (session ?r1) (Some 1) (world ?r1))))
      = hd (map content (yielded ?r1))"
      by (simp only:)
    with fresh again
    have "replicate (length (messages demo_session) + 2) (120::nat) =
        replicate (length (messages (session ?r1)) + 2) 120"
      by (simp only:)
    then have "length (replicate (length (messages demo_session) + 2) (120::nat)) =
        length (replicate (length (messages (session ?r1)) + 2) (120::nat))"
      by (simp only:)
    then show False
      by (simp only: length_replicate messages_demo_session len1) simp
  qed
qed

text \<open>
  C5. When a kind that the configuration declares for a persona is not one of
  \<open>ollama\<close>, \<open>groq\<close>, \<open>google\<close>, \<open>huggingface\<close>, constructing the session
  raises the factory's \<open>ValueError\<close>, whose message names such a kind (the first one
  the setup reaches). No session object exists then, so a caller that constructs the
  session and runs the discussion on it, whatever the round count and the backend,
  gets no message and the backend no request.
\<close>

theorem unsupported_kind_fails:
  assumes "\<exists>kind \<in> set (declared_kinds cfg). kind \<notin> set supported_kinds"
  shows "\<exists>kind \<in> set (declared_kinds cfg). kind \<notin> set supported_kinds \<and>
           new_Discussion cfg topic =
             Inl (ValueError (str ''Unknown provider: '' @ kind
                              @ str ''. Use: ollama, groq, google, huggingface'')) \<and>
           (case new_Discussion cfg topic of
              Inl e \<Rightarrow> []
            | Inr d \<Rightarrow> yielded (run_discussion cfg gen d rounds w)) = [] \<and>
           (case new_Discussion cfg topic of
              Inl e \<Rightarrow> w
            | Inr d \<Rightarrow> world (run_discussion cfg gen d rounds w)) = w"
proof -
  from new_Discussion_unsupported[OF assms, of topic]
  obtain kind where k: "kind \<in> set (declared_kinds cfg)" "kind \<notin> set supported_kinds"
    "new_Discussion cfg topic = Inl (unknown_provider kind)"
    by blast
  from k(3) have "(case new_Discussion cfg topic of
              Inl e \<Rightarrow> []
            | Inr d \<Rightarrow> yielded (run_discussion cfg gen d rounds w)) = []"
    and "(case new_Discussion cfg topic of
              Inl e \<Rightarrow> w
            | Inr d \<Rightarrow> world (run_discussion cfg gen d rounds w)) = w"
    by simp_all
  with k show ?thesis
    unfolding unknown_provider_def by blast
qed

theorem unsupported_kind_fails_witness:
  "(\<exists>kind. kind \<in> set (declared_kinds unknown_provider_config) \<and> kind \<notin> set supported_kinds) \<and>
   new_Discussion unknown_provider_config demo_topic =
     Inl (ValueError (str ''Unknown provider: unknown-provider. Use: ollama, groq, google, huggingface'')) \<and>
   (case new_Discussion unknown_provider_config demo_topic of
      Inl e \<Rightarrow> []
    | Inr d \<Rightarrow> yielded (run_discussion unknown_provider_config pad_backend d (Some 1) 0)) = [] \<and>
   (case new_Discussion unknown_provider_config demo_topic of
      Inl e \<Rightarrow> 0
    | Inr d \<Rightarrow> world (run_discussion unknown_provider_config pad_backend d (Some 1) 0)) = 0"
proof -
  have h: "\<exists>kind \<in> set (declared_kinds unknown_provider_config). kind \<notin> set supported_kinds"
    by (simp add: declared_kinds_unknown supported_kinds_def str_eq_iff)
  from unsupported_kind_fails[OF h, of demo_topic pad_backend "Some 1" 0]
  obtain kind where k: "kind \<in> set (declared_kinds unknown_provider_config)" "kind \<notin> set supported_kinds"
    and n: "new_Discussion unknown_provider_config demo_topic =
             Inl (ValueError (str ''Unknown provider: '' @ kind
                              @ str ''. Use: ollama, groq, google, huggingface''))"
    and y: "(case new_Discussion unknown_provider_config demo_topic of
      Inl e \<Rightarrow> []
    | Inr d \<Rightarrow> yielded (run_discussion unknown_provider_config pad_backend d (Some 1) 0)) = []"
    and v: "(case new_Discussion unknown_provider_config demo_topic of
      Inl e \<Rightarrow> 0
    | Inr d \<Rightarrow> world (run_discussion unknown_provider_config pad_backend d (Some 1) 0)) = 0"
    by blast
  from k have "kind = str ''unknown-provider''"
    by (auto simp: declared_kinds_unknown supported_kinds_def)
  with n have n': "new_Discussion unknown_provider_config demo_topic =
     Inl (ValueError (str ''Unknown provider: unknown-provider. Use: ollama, groq, google, huggingface''))"
    by (simp add: str_def)
  from h have h': "\<exists>kind. kind \<in> set (declared_kinds unknown_provider_config) \<and> kind \<notin> set supported_kinds"
    by blast
  from h' n' y v show ?thesis
    by (intro conjI)
qed

text \<open>
  C6, as the code has it. The check is in \<open>main\<close>, not in the engine: once the topic
  is read (the text of the file and the interactive input trimmed, the positional
  argument taken as it is), an empty topic makes \<open>main\<close> end with exit status 1,
  before a session is constructed and before any request to a backend: whatever its
  last statement, the call of \<open>run_discussion\<close>, would do, it is not reached. So a
  file, or an interactive input, of white space only is rejected.
\<close>

theorem empty_topic_exits:
  "(read_topic files stdin a = Inr (str '''') \<longrightarrow> main cfg0 run files stdin a w = rejected w) \<and>
   (truthy (arg_file a) \<and> files (the (arg_file a)) = Some contents \<and> (\<forall>c \<in> set contents. isspace c)
      \<longrightarrow> main cfg0 run files stdin a w = rejected w) \<and>
   (\<not> truthy (arg_file a) \<and> \<not> truthy (arg_topic a) \<and>
    (\<forall>c \<in> set (join (str ''\<newline>'') (read_lines stdin 0 [])). isspace c)
      \<longrightarrow> main cfg0 run files stdin a w = rejected w)"
proof (intro conjI impI)
  assume "read_topic files stdin a = Inr (str '''')"
  then show "main cfg0 run files stdin a w = rejected w"
    by (rule main_empty_topic)
next
  assume "truthy (arg_file a) \<and> files (the (arg_file a)) = Some contents \<and> (\<forall>c \<in> set contents. isspace c)"
  then have "read_topic files stdin a = Inr (str '''')"
    by (simp add: read_topic_def strip_all_space str_def)
  then show "main cfg0 run files stdin a w = rejected w"
    by (rule main_empty_topic)
next
  assume "\<not> truthy (arg_file a) \<and> \<not> truthy (arg_topic a) \<and>
    (\<forall>c \<in> set (join (str ''\<newline>'') (read_lines stdin 0 [])). isspace c)"
  then have "read_topic files stdin a = Inr (str '''')"
    by (simp add: read_topic_def get_user_input_def strip_all_space str_def)
  then show "main cfg0 run files stdin a w = rejected w"
    by (rule main_empty_topic)
qed

theorem empty_topic_exits_witness:
  "read_topic blank_files [] blank_args = Inr (str '''') \<and>
   truthy (arg_file blank_args) \<and>
   blank_files (the (arg_file blank_args)) = Some (str '' \<newline> '') \<and>
   list_all isspace (str '' \<newline> '') \<and>
   \<not> truthy (arg_file (blank_args\<lparr>arg_file := None\<rparr>)) \<and>
   \<not> truthy (arg_topic (blank_args\<lparr>arg_file := None\<rparr>)) \<and>
   list_all isspace (join (str ''\<newline>'') (read_lines [str '' '', str '''', str ''''] 0 [])) \<and>
   main default_config counting_run blank_files [] blank_args 0 = rejected 0 \<and>
   main default_config counting_run blank_files [str '' '', str '''', str ''''] (blank_args\<lparr>arg_file := None\<rparr>) 0
     = rejected 0"
proof -
  have f1: "truthy (arg_file blank_args)"
    by (simp add: blank_args_def truthy_def str_eq_iff)
  have f2: "blank_files (the (arg_file blank_args)) = Some (str '' \<newline> '')"
    by (simp add: blank_args_def blank_files_def)
  have f3: "list_all isspace (str '' \<newline> '')"
    by (simp add: str_def isspace_def)
  have g1: "\<not> truthy (arg_file (blank_args\<lparr>arg_file := None\<rparr>))"
    by (simp add: truthy_def)
  have g2: "\<not> truthy (arg_topic (blank_args\<lparr>arg_file := None\<rparr>))"
    by (simp add: blank_args_def truthy_def)
  have g3: "list_all isspace (join (str ''\<newline>'') (read_lines [str '' '', str '''', str ''''] 0 []))"
    by (simp add: str_def isspace_def)
  note th1 = empty_topic_exits[of blank_files "[]" blank_args default_config counting_run 0 "str '' \<newline> ''"]
  note th2 = empty_topic_exits[of blank_files "[str '' '', str '''', str '''']" "blank_args\<lparr>arg_file := None\<rparr>"
      default_config counting_run 0 "[]"]
  from th1 f1 f2 f3 have m1: "main default_config counting_run blank_files [] blank_args 0 = rejected 0"
    by (simp add: list_all_iff)
  from th2 g1 g2 g3 have m2:
    "main default_config counting_run blank_files [str '' '', str '''', str ''''] (blank_args\<lparr>arg_file := None\<rparr>) 0
       = rejected 0"
    by (simp add: list_all_iff)
  from read_topic_blank f1 f2 f3 g1 g2 g3 m1 m2 show ?thesis
    by (intro conjI)
qed

text \<open>
  C6 as stated fails: the engine itself rejects nothing. \<open>Discussion\<close> constructed on
  the empty topic is a session like any other, and a round on it sends its five requests.
\<close>

theorem empty_topic_exits_counterexample:
  "new_Discussion default_config (str '''') = Inr (demo_session\<lparr>user_input := str ''''\<rparr>) \<and>
   outcome (run_discussion default_config pad_backend (demo_session\<lparr>user_input := str ''''\<rparr>) (Some 1) 0)
     = Inr () \<and>
   length (yielded (run_discussion default_config pad_backend (demo_session\<lparr>user_input := str ''''\<rparr>) (Some 1) 0))
     = 5"
proof -
  have b: "\<forall>k \<in> set RESPONSE_ORDER_WITH_SYNTH. map_of (clients (demo_session\<lparr>user_input := str ''''\<rparr>)) k \<noteq> None"
    using demo_session_bound by simp
  have fin: "outcome (run_discussion default_config pad_backend (demo_session\<lparr>user_input := str ''''\<rparr>) (Some 1) 0)
     = Inr ()"
    by (rule run_discussion_completes[OF never_fails_pad_backend b])
  have "(1::int) \<le> 1" by simp
  from message_count_aux[OF this fin]
  have "length (yielded (run_discussion default_config pad_backend (demo_session\<lparr>user_input := str ''''\<rparr>) (Some 1) 0))
     = 5"
    by (simp add: default_config_def)
  with new_Discussion_empty fin show ?thesis
    by (intro conjI)
qed

text \<open>
  C7, as the code has it. Both post-processors send the serialized transcript of the
  session, with their own instruction and the temperature 0.3, to the first client of the
  bindings in insertion order, and return what that backend returns, unchanged: the text
  is not trimmed.
\<close>

theorem post_processors_verbatim:
  assumes "clients d = (k, cl) # rest"
  shows "generate_summary gen d w =
           gen cl summary_prompt
             [\<lparr>role = str ''user'',
               entry_content = str ''Discussion transcript:\<newline>\<newline>'' @ get_transcript d
                 @ str ''\<newline>\<newline>Please summarize this discussion.''\<rparr>]
             (3 / 10) w \<and>
         generate_takeaway gen d w =
           gen cl takeaway_prompt
             [\<lparr>role = str ''user'',
               entry_content = str ''Discussion transcript:\<newline>\<newline>'' @ get_transcript d
                 @ str ''\<newline>\<newline>Provide a final balanced takeaway.''\<rparr>]
             (3 / 10) w"
  using assms by (simp add: generate_summary_def generate_takeaway_def dict_values_def)

theorem post_processors_verbatim_witness:
  "clients demo_session =
     (str ''logical'', OllamaClient (str ''llama3.2'') (str ''http://localhost:11434'') 180)
     # [(str ''skeptical'', OllamaClient (str ''mistral'') (str ''http://localhost:11434'') 180),
        (str ''synthesizer'', OllamaClient (str ''phi3'') (str ''http://localhost:11434'') 180),
        (str ''creative'', GroqClient (str '''') (str ''llama-3.3-70b-versatile'')),
        (str ''practical'', GroqClient (str '''') (str ''qwen/qwen3-32b''))] \<and>
   generate_summary pad_backend demo_session 0 = (Inr (str '' x ''), 1) \<and>
   generate_takeaway pad_backend demo_session 1 = (Inr (str '' x ''), 2)"
  using post_processors_verbatim[OF clients_demo_session, of pad_backend 0]
        post_processors_verbatim[OF clients_demo_session, of pad_backend 1]
        clients_demo_session
  by (simp add: pad_backend_def str_def)

text \<open>
  C7 as stated fails: a backend answering \<open>" x "\<close> makes both post-processors
  return \<open>" x "\<close>, which trimming would turn into \<open>"x"\<close>.
\<close>

theorem post_processors_verbatim_counterexample:
  "fst (generate_summary pad_backend demo_session 0) = Inr (str '' x '') \<and>
   fst (generate_takeaway pad_backend demo_session 0) = Inr (str '' x '') \<and>
   strip (str '' x '') = str ''x''"
  by (simp add: generate_summary_def generate_takeaway_def dict_values_def clients_demo_session
        pad_backend_def str_def strip_def lstrip_def rstrip_def isspace_def)

text \<open>
  C8, as the code has it. When neither the topic nor the content of any message has,
  among its own lines, an empty line followed by a line in square brackets, and no
  marker or display name holds a newline, reading the transcript text back gives, for
  every message in transcript order, its header (marker, space, display name) and its
  content; topics and contents of several lines are read back as they are. The markers
  and display names of the messages the engine itself creates come from the registry
  and hold no newline.
\<close>

theorem transcript_round_trip:
  "(\<not> embeds_header (user_input d) \<and>
    (\<forall>m \<in> set (messages d).
       10 \<notin> set (emoji m) \<and> 10 \<notin> set (persona_name m) \<and> \<not> embeds_header (content m))
    \<longrightarrow> parse_transcript (get_transcript d) =
          Some (map (\<lambda>m. (emoji m @ str '' '' @ persona_name m, content m)) (messages d))) \<and>
   (generate_response cfg gen d' k rnd w = (Inr m', w')
    \<longrightarrow> 10 \<notin> set (emoji m') \<and> 10 \<notin> set (persona_name m'))"
proof (intro conjI impI)
  assume "\<not> embeds_header (user_input d) \<and>
    (\<forall>m \<in> set (messages d).
       10 \<notin> set (emoji m) \<and> 10 \<notin> set (persona_name m) \<and> \<not> embeds_header (content m))"
  then show "parse_transcript (get_transcript d) =
          Some (map (\<lambda>m. (emoji m @ str '' '' @ persona_name m, content m)) (messages d))"
    by (intro round_trip_lines) simp_all
next
  assume "generate_response cfg gen d' k rnd w = (Inr m', w')"
  then show "10 \<notin> set (emoji m')" and "10 \<notin> set (persona_name m')"
    by (simp_all add: generated_header_single_line[where gen = gen])
qed

theorem transcript_round_trip_witness:
  "\<not> embeds_header (user_input paragraphs_session) \<and>
   list_all (\<lambda>m. 10 \<notin> set (emoji m) \<and> 10 \<notin> set (persona_name m) \<and> \<not> embeds_header (content m))
     (messages paragraphs_session) \<and>
   parse_transcript (get_transcript paragraphs_session) =
     Some [([0x1F9E0] @ str '' Logical Thinker'', str ''a\<newline>\<newline>b''),
           ([0x1F3A8] @ str '' Creative Thinker'', str ''[c]\<newline>'')] \<and>
   generate_response default_config pad_backend demo_session (str ''logical'') 1 0 =
     (Inr (logical_says (replicate 2 120)), 1) \<and>
   10 \<notin> set (emoji (logical_says (replicate 2 120))) \<and>
   10 \<notin> set (persona_name (logical_says (replicate 2 120)))"
proof -
  note th = transcript_round_trip[of paragraphs_session default_config pad_backend demo_session
      "str ''logical''" 1 0 "logical_says (replicate 2 120)" 1]
  from paragraphs_clean(2) have b: "\<forall>m \<in> set (messages paragraphs_session).
       10 \<notin> set (emoji m) \<and> 10 \<notin> set (persona_name m) \<and> \<not> embeds_header (content m)"
    by (simp only: list_all_iff)
  from th paragraphs_clean(1) b
  have "parse_transcript (get_transcript paragraphs_session) =
      Some (map (\<lambda>m. (emoji m @ str '' '' @ persona_name m, content m)) (messages paragraphs_session))"
    by blast
  then have p: "parse_transcript (get_transcript paragraphs_session) =
     Some [([0x1F9E0] @ str '' Logical Thinker'', str ''a\<newline>\<newline>b''),
           ([0x1F3A8] @ str '' Creative Thinker'', str ''[c]\<newline>'')]"
    by (simp add: paragraphs_session_def logical_says_def creative_says_def str_def)
  from th logical_first_turn
  have g: "10 \<notin> set (emoji (logical_says (replicate 2 120)))"
    "10 \<notin> set (persona_name (logical_says (replicate 2 120)))"
    by blast+
  from paragraphs_clean p logical_first_turn g show ?thesis
    by (intro conjI)
qed

text \<open>
  C8 as stated fails: contents are written into the text as they are, so a content
  with an empty line followed by a line in square brackets looks like a further
  message. The two sessions below differ in the names and contents of their messages
  and have the same transcript text; no reading of the text recovers both.
\<close>

theorem transcript_round_trip_counterexample:
  "get_transcript merged_session = get_transcript split_session \<and>
   map content (messages merged_session) \<noteq> map content (messages split_session) \<and>
   map persona_name (messages merged_session) \<noteq> map persona_name (messages split_session) \<and>
   embeds_header (content (hd (messages merged_session)))"
  by (simp add: get_transcript_eq transcript_line_eq merged_session_def split_session_def
        logical_says_def creative_says_def embeds_header_def bracketed_def str_def)

end
